theory Spec2Isabelle
  imports Main "HOL-Library.AList"
begin

section \<open>Slack plugin: mirrored entities\<close>

text \<open>
  Modelled from the spec: \<^verbatim>\<open>models.js\<close> is not part of the sources. The records below
  carry the fields that \<^verbatim>\<open>createGraph\<close> reads (\<^verbatim>\<open>member.id\<close>, \<^verbatim>\<open>member.email\<close>,
  \<^verbatim>\<open>message.channel\<close>, ...). Fields called \<^verbatim>\<open>id\<close>, \<^verbatim>\<open>name\<close>, \<^verbatim>\<open>type\<close>, \<^verbatim>\<open>text\<close> and
  \<^verbatim>\<open>reaction\<close> in the source get the record's name as a suffix.
\<close>

record user =
  id_user :: string
  name_user :: "string option"
  email :: string

record channel =
  id_channel :: string
  name_channel :: string
  type_channel :: string

record message =
  id_message :: string
  channel :: string
  text_message :: string
  authorId :: string
  isThread :: bool
  inReplyTo :: string
  hasReactions :: bool
  hasMentions :: bool
  mentions :: "string list"

record reaction =
  reaction_reaction :: string
  reactor :: string

text \<open>
  Modelled from the spec: the read operations of \<^verbatim>\<open>SqliteMirrorRepository\<close> that
  \<^verbatim>\<open>createGraph\<close> calls (\<^verbatim>\<open>members()\<close>, \<^verbatim>\<open>channels()\<close>, \<^verbatim>\<open>messages(channelId)\<close>,
  \<^verbatim>\<open>reactions(channel, messageId)\<close>, \<^verbatim>\<open>message(id)\<close>, \<^verbatim>\<open>thread(id)\<close>) are not in the
  sources. They are pure queries over the committed store, so a repository is given by
  what each query returns.
\<close>

record repo =
  members :: "user list"
  channels :: "channel list"
  messages :: "string \<Rightarrow> message list"
  reactions :: "string \<Rightarrow> string \<Rightarrow> reaction list"
  message_by_id :: "string \<Rightarrow> message"
  thread :: "string \<Rightarrow> string list"

section \<open>Addresses\<close>

text \<open>
  JavaScript passes values untyped. Every address component the source builds is a
  string, except at one call site of \<^verbatim>\<open>createGraph\<close>, which hands the whole reaction row
  to \<^verbatim>\<open>reactionNode\<close>; \<open>jsval\<close> keeps the two apart.
\<close>

datatype jsval = Str string | Obj reaction

text \<open>
  Modelled from the spec: \<^verbatim>\<open>declaration.js\<close> and \<^verbatim>\<open>core/graph\<close> are not in the sources.
  An address is an ordered sequence of components behind a namespace token, one token
  per node and edge variant; \<^verbatim>\<open>append\<close> adds components at the end and has no failure
  mode.
\<close>

datatype namespace =
  MemberNS | MessageNS | ReactionNS
  | AuthorsMessageNS | AddsReactionNS | ReactsToNS | MentionsNS | MessageRepliesNS

type_synonym address = "namespace \<times> jsval list"

definition append :: "address \<Rightarrow> jsval list \<Rightarrow> address" where
  "append base parts = (fst base, snd base @ parts)"

definition memberNodeType_prefix :: address where
  "memberNodeType_prefix = (MemberNS, [])"

definition messageNodeType_prefix :: address where
  "messageNodeType_prefix = (MessageNS, [])"

definition reactionNodeType_prefix :: address where
  "reactionNodeType_prefix = (ReactionNS, [])"

definition authorsMessageEdgeType_prefix :: address where
  "authorsMessageEdgeType_prefix = (AuthorsMessageNS, [])"

definition addsReactionEdgeType_prefix :: address where
  "addsReactionEdgeType_prefix = (AddsReactionNS, [])"

definition reactsToEdgeType_prefix :: address where
  "reactsToEdgeType_prefix = (ReactsToNS, [])"

definition mentionsEdgeType_prefix :: address where
  "mentionsEdgeType_prefix = (MentionsNS, [])"

definition messageRepliesEdgeType_prefix :: address where
  "messageRepliesEdgeType_prefix = (MessageRepliesNS, [])"

definition memberAddress :: "user \<Rightarrow> address" where
  "memberAddress member = append memberNodeType_prefix [Str (email member)]"

definition messageAddress :: "message \<Rightarrow> address" where
  "messageAddress message =
     append messageNodeType_prefix [Str (channel message), Str (id_message message)]"

definition reactionAddress :: "jsval \<Rightarrow> message \<Rightarrow> address" where
  "reactionAddress reaction message =
     append reactionNodeType_prefix
       [Str (channel message), reaction, Str (authorId message), Str (id_message message)]"

section \<open>Nodes and edges\<close>

text \<open>
  What the source takes from outside the repository is a parameter of the model:
  the built-in \<^verbatim>\<open>parseFloat\<close> and the multiplication of a double by 1000 (\<open>'n\<close> stands
  for JavaScript numbers, \<^verbatim>\<open>NaN\<close> among them), \<^verbatim>\<open>escape\<close> of the package \<^verbatim>\<open>entities\<close>, and
  \<^verbatim>\<open>reactionWeight\<close> of \<^verbatim>\<open>reactionWeights.js\<close> (\<open>'c\<close> is the weight configuration, \<open>'w\<close>
  a weight).
\<close>

record ('n, 'c, 'w) env =
  parseFloat :: "string \<Rightarrow> 'n"
  times1000 :: "'n \<Rightarrow> 'n"
  escape :: "string \<Rightarrow> string"
  reactionWeight :: "'c \<Rightarrow> string \<Rightarrow> string \<Rightarrow> string \<Rightarrow> string \<Rightarrow> 'w"

record 'n node =
  address :: address
  description :: string
  timestampMs :: "'n option"

record 'n edge =
  address :: address
  timestampMs :: "'n option"
  src :: address
  dst :: address

definition MESSAGE_LENGTH :: nat where
  "MESSAGE_LENGTH = 30"

text \<open>A template literal turns a value into a string.\<close>

fun toString :: "jsval \<Rightarrow> string" where
  "toString (Str s) = s"
| "toString (Obj _) = ''[object Object]''"

text \<open>\<^verbatim>\<open>Number(parseFloat(message.id) * 1000)\<close>\<close>

definition messageTimestamp :: "('n, 'c, 'w) env \<Rightarrow> message \<Rightarrow> 'n" where
  "messageTimestamp X message = times1000 X (parseFloat X (id_message message))"

definition memberNode :: "('n, 'c, 'w) env \<Rightarrow> user \<Rightarrow> 'n node" where
  "memberNode X member =
     \<lparr> node.address = memberAddress member,
       description = ''slack/#'' @ escape X (take 20 (id_user member)),
       node.timestampMs = None \<rparr>"

definition messageNode :: "('n, 'c, 'w) env \<Rightarrow> message \<Rightarrow> string \<Rightarrow> 'n node" where
  \<open>messageNode X message channelName =
     (let partialMessage = escape X (take MESSAGE_LENGTH (text_message message))
      in \<lparr> node.address = messageAddress message,
            description = ''#'' @ channelName @ '' message ["'' @ partialMessage @ ''..."]'',
            node.timestampMs = Some (messageTimestamp X message) \<rparr>)\<close>

definition reactionNode :: "('n, 'c, 'w) env \<Rightarrow> message \<Rightarrow> jsval \<Rightarrow> 'n node" where
  "reactionNode X message reaction =
     (let reactionStr = reaction
      in \<lparr> node.address = reactionAddress reaction message,
            description = ''Reacted `'' @ toString reactionStr @ ''` to message [''
              @ id_message message @ ''] in channel '' @ channel message,
            node.timestampMs = Some (messageTimestamp X message) \<rparr>)"

definition authorsMessageEdge :: "('n, 'c, 'w) env \<Rightarrow> message \<Rightarrow> user \<Rightarrow> 'n edge" where
  "authorsMessageEdge X message author =
     \<lparr> edge.address = append authorsMessageEdgeType_prefix
         [Str (id_user author), Str (channel message), Str (id_message message)],
       edge.timestampMs = Some (messageTimestamp X message),
       src = memberAddress author,
       dst = messageAddress message \<rparr>"

definition addsReactionEdge ::
  "('n, 'c, 'w) env \<Rightarrow> jsval \<Rightarrow> user \<Rightarrow> message \<Rightarrow> 'n edge" where
  "addsReactionEdge X reaction member message =
     \<lparr> edge.address = append addsReactionEdgeType_prefix
         [Str (id_user member), reaction, Str (channel message), Str (id_message message)],
       edge.timestampMs = Some (messageTimestamp X message),
       src = memberAddress member,
       dst = reactionAddress reaction message \<rparr>"

definition reactsToEdge :: "('n, 'c, 'w) env \<Rightarrow> jsval \<Rightarrow> message \<Rightarrow> 'n edge" where
  "reactsToEdge X reaction message =
     \<lparr> edge.address = append reactsToEdgeType_prefix
         [reaction, Str (authorId message), Str (channel message), Str (id_message message)],
       edge.timestampMs = Some (messageTimestamp X message),
       src = reactionAddress reaction message,
       dst = messageAddress message \<rparr>"

definition mentionsEdge :: "('n, 'c, 'w) env \<Rightarrow> message \<Rightarrow> user \<Rightarrow> 'n edge" where
  "mentionsEdge X message member =
     \<lparr> edge.address = append mentionsEdgeType_prefix
         [Str (channel message), Str (authorId message), Str (id_message message),
          Str (id_user member)],
       edge.timestampMs = Some (messageTimestamp X message),
       src = messageAddress message,
       dst = memberAddress member \<rparr>"

definition repliesEdge :: "('n, 'c, 'w) env \<Rightarrow> message \<Rightarrow> message \<Rightarrow> 'n edge" where
  "repliesEdge X message reply =
     \<lparr> edge.address = append messageRepliesEdgeType_prefix
         [Str (channel message), Str (authorId message), Str (id_message message),
          Str (channel reply), Str (authorId reply), Str (id_message reply)],
       edge.timestampMs = Some (messageTimestamp X message),
       src = messageAddress message,
       dst = messageAddress reply \<rparr>"

section \<open>The graph builder\<close>

text \<open>
  Modelled from the spec: the weighted-graph container (\<^verbatim>\<open>core/graph\<close>, \<^verbatim>\<open>core/weights\<close>)
  is not in the sources. It receives nodes, edges and node weights; the model keeps the
  nodes and edges in the order \<^verbatim>\<open>addNode\<close> and \<^verbatim>\<open>addEdge\<close> were called, and the weights
  as the \<^verbatim>\<open>Map\<close> they are. What the container does with a node or an edge it is
  handed twice is its own business and not part of the model.
\<close>

record ('n, 'w) weightedGraph =
  nodes :: "'n node list"
  edges :: "'n edge list"
  nodeWeights :: "address \<rightharpoonup> 'w"

definition emptyGraph :: "('n, 'w) weightedGraph" where
  "emptyGraph = \<lparr> nodes = [], edges = [], nodeWeights = Map.empty \<rparr>"

definition addNode :: "'n node \<Rightarrow> ('n, 'w) weightedGraph \<Rightarrow> ('n, 'w) weightedGraph" where
  "addNode n wg = wg\<lparr> nodes := nodes wg @ [n] \<rparr>"

definition addEdge :: "'n edge \<Rightarrow> ('n, 'w) weightedGraph \<Rightarrow> ('n, 'w) weightedGraph" where
  "addEdge e wg = wg\<lparr> edges := edges wg @ [e] \<rparr>"

definition setNodeWeight ::
  "address \<Rightarrow> 'w \<Rightarrow> ('n, 'w) weightedGraph \<Rightarrow> ('n, 'w) weightedGraph" where
  "setNodeWeight a w wg = wg\<lparr> nodeWeights := (nodeWeights wg)(a \<mapsto> w) \<rparr>"

text \<open>
  \<^verbatim>\<open>new Map(repo.members().map((m) => [m.id, m]))\<close>: of two members with one id, the
  later entry stays.
\<close>

definition memberMap_of :: "user list \<Rightarrow> (string \<rightharpoonup> user)" where
  "memberMap_of ms = map_of (rev (map (\<lambda>m. (id_user m, m)) ms))"

text \<open>
  The body of the loop over the reactions of a message. The state is the graph and the
  flag \<^verbatim>\<open>hasEdges\<close>. The node is built from the whole row \<^verbatim>\<open>reaction\<close>, the edges and
  the weight from its fields, as the source has it.
\<close>

definition reactionStep ::
  "('n, 'c, 'w) env \<Rightarrow> 'c \<Rightarrow> (string \<rightharpoonup> user) \<Rightarrow> message \<Rightarrow> reaction \<Rightarrow>
   ('n, 'w) weightedGraph \<times> bool \<Rightarrow> ('n, 'w) weightedGraph \<times> bool" where
  "reactionStep X weights memberMap message r st =
     (case memberMap (reactor r) of
        None \<Rightarrow> st
      | Some reactingMember \<Rightarrow>
          (let node = reactionNode X message (Obj r);
               wg1 = setNodeWeight (node.address node)
                       (reactionWeight X weights (reaction_reaction r) (reactor r)
                          (authorId message) (channel message)) (fst st);
               wg2 = addNode node wg1;
               wg3 = addNode (memberNode X reactingMember) wg2;
               wg4 = addEdge (reactsToEdge X (Str (reaction_reaction r)) message) wg3;
               wg5 = addEdge (addsReactionEdge X (Str (reaction_reaction r)) reactingMember message) wg4
           in (wg5, True)))"

definition mentionStep ::
  "('n, 'c, 'w) env \<Rightarrow> (string \<rightharpoonup> user) \<Rightarrow> message \<Rightarrow> string \<Rightarrow>
   ('n, 'w) weightedGraph \<times> bool \<Rightarrow> ('n, 'w) weightedGraph \<times> bool" where
  "mentionStep X memberMap message u st =
     (case memberMap u of
        None \<Rightarrow> st
      | Some mentionedMember \<Rightarrow>
          (let wg1 = addNode (memberNode X mentionedMember) (fst st);
               wg2 = addEdge (mentionsEdge X message mentionedMember) wg1
           in (wg2, True)))"

definition replyStep ::
  "('n, 'c, 'w) env \<Rightarrow> repo \<Rightarrow> channel \<Rightarrow> message \<Rightarrow> string \<Rightarrow>
   ('n, 'w) weightedGraph \<Rightarrow> ('n, 'w) weightedGraph" where
  "replyStep X rp ch message replyId wg =
     (let replyMessage = message_by_id rp replyId;
          wg1 = addNode (messageNode X replyMessage (name_channel ch)) wg
      in addEdge (repliesEdge X message replyMessage) wg1)"

text \<open>The body of the loop over the messages of a channel.\<close>

definition processMessage ::
  "('n, 'c, 'w) env \<Rightarrow> repo \<Rightarrow> 'c \<Rightarrow> (string \<rightharpoonup> user) \<Rightarrow> channel \<Rightarrow> message \<Rightarrow>
   ('n, 'w) weightedGraph \<Rightarrow> ('n, 'w) weightedGraph" where
  "processMessage X rp weights memberMap ch message wg =
     (if \<not> hasReactions message \<and> \<not> hasMentions message then wg
      else
        (let st1 = fold (reactionStep X weights memberMap message)
                     (reactions rp (channel message) (id_message message)) (wg, False);
             st2 = fold (mentionStep X memberMap message) (mentions message) st1;
             hasEdges = snd st2;
             wg3 = (if isThread message \<and> inReplyTo message = id_message message
                    then fold (replyStep X rp ch message) (thread rp (id_message message))
                           (addNode (messageNode X message (name_channel ch)) (fst st2))
                    else fst st2)
         in if hasEdges
            then (case memberMap (authorId message) of
                    None \<Rightarrow> wg3
                  | Some author \<Rightarrow>
                      addEdge (authorsMessageEdge X message author)
                        (addNode (messageNode X message (name_channel ch))
                           (addNode (memberNode X author) wg3)))
            else wg3))"

definition processChannel ::
  "('n, 'c, 'w) env \<Rightarrow> repo \<Rightarrow> 'c \<Rightarrow> (string \<rightharpoonup> user) \<Rightarrow> channel \<Rightarrow>
   ('n, 'w) weightedGraph \<Rightarrow> ('n, 'w) weightedGraph" where
  "processChannel X rp weights memberMap ch wg =
     fold (processMessage X rp weights memberMap ch) (messages rp (id_channel ch)) wg"

definition createGraph ::
  "('n, 'c, 'w) env \<Rightarrow> string \<Rightarrow> repo \<Rightarrow> 'c \<Rightarrow> ('n, 'w) weightedGraph" where
  "createGraph X token rp weights =
     (let memberMap = memberMap_of (members rp)
      in fold (processChannel X rp weights memberMap) (channels rp) emptyGraph)"

section \<open>The mirror repository\<close>

text \<open>
  The store is an SQLite database reached through \<^verbatim>\<open>better-sqlite3\<close>. The model keeps
  what the statements of the source read and write: the tables by name, in the order of
  their creation, each with its column names and its rows, every row under its rowid;
  whether a transaction is open (\<^verbatim>\<open>db.inTransaction\<close>); and the tables as they were at
  \<^verbatim>\<open>BEGIN\<close>, which \<^verbatim>\<open>ROLLBACK\<close> restores (SQLite rolls back data definition statements
  too).
\<close>

datatype cell = Null | Integer int | Text string

record table =
  columns :: "string list"
  rows :: "(int \<times> cell list) list"

record database =
  tables :: "(string \<times> table) list"
  inTransaction :: bool
  snapshot :: "(string \<times> table) list"

text \<open>
  A thrown value: a JavaScript \<^verbatim>\<open>Error\<close> of the source with its message, or an error
  raised by the database engine.
\<close>

datatype error = Error string | SqliteError string

type_synonym 'a outcome = "(error + 'a) \<times> database"

text \<open>The statements the source prepares and runs.\<close>

datatype statement =
  BEGIN
  | COMMIT
  | ROLLBACK
  | CREATE_TABLE bool string "string list"
  | INSERT_INTO_meta string

text \<open>
  SQLite compares the names of tables and columns without regard to the case of the
  letters A to Z.
\<close>

definition lower :: "char \<Rightarrow> char" where
  "lower c =
     (case map_of (zip ''ABCDEFGHIJKLMNOPQRSTUVWXYZ'' ''abcdefghijklmnopqrstuvwxyz'') c of
        None \<Rightarrow> c
      | Some l \<Rightarrow> l)"

definition fold_case :: "string \<Rightarrow> string" where
  "fold_case name = map lower name"

definition find_table :: "(string \<times> table) list \<Rightarrow> string \<Rightarrow> table option" where
  "find_table ts name = map_of (map (\<lambda>(n, t). (fold_case n, t)) ts) (fold_case name)"

definition has_column :: "table \<Rightarrow> string \<Rightarrow> bool" where
  "has_column t c = (fold_case c \<in> set (map fold_case (columns t)))"

definition column :: "table \<Rightarrow> string \<Rightarrow> cell list \<Rightarrow> cell" where
  "column t c r =
     (case map_of (zip (map fold_case (columns t)) r) (fold_case c) of
        None \<Rightarrow> Null
      | Some v \<Rightarrow> v)"

text \<open>
  \<^verbatim>\<open>db.prepare(sql).run()\<close>. \<^verbatim>\<open>CREATE_TABLE True\<close> is \<^verbatim>\<open>CREATE TABLE IF NOT EXISTS\<close>.
  \<^verbatim>\<open>INSERT_INTO_meta c\<close> is \<^verbatim>\<open>INSERT INTO meta (zero, config) VALUES (0, ?)\<close> run with
  \<^verbatim>\<open>c\<close>. The source declares \<^verbatim>\<open>zero INTEGER PRIMARY KEY\<close>, which makes \<^verbatim>\<open>zero\<close> the rowid of
  \<^verbatim>\<open>meta\<close>: the new row has the rowid 0 and is refused when a row with that rowid is
  there.
\<close>

fun run :: "statement \<Rightarrow> database \<Rightarrow> unit outcome" where
  "run BEGIN db =
     (if inTransaction db
      then (Inl (SqliteError ''cannot start a transaction within a transaction''), db)
      else (Inr (), db\<lparr> inTransaction := True, snapshot := tables db \<rparr>))"
| "run COMMIT db =
     (if inTransaction db
      then (Inr (), db\<lparr> inTransaction := False \<rparr>)
      else (Inl (SqliteError ''cannot commit - no transaction is active''), db))"
| "run ROLLBACK db =
     (if inTransaction db
      then (Inr (), db\<lparr> tables := snapshot db, inTransaction := False \<rparr>)
      else (Inl (SqliteError ''cannot rollback - no transaction is active''), db))"
| "run (CREATE_TABLE ifNotExists name cols) db =
     (case find_table (tables db) name of
        Some _ \<Rightarrow>
          (if ifNotExists then (Inr (), db)
           else (Inl (SqliteError (''table '' @ name @ '' already exists'')), db))
      | None \<Rightarrow>
          (Inr (), db\<lparr> tables := tables db @ [(name, \<lparr> columns = cols, rows = [] \<rparr>)] \<rparr>))"
| "run (INSERT_INTO_meta c) db =
     (case find_table (tables db) ''meta'' of
        None \<Rightarrow> (Inl (SqliteError ''no such table: meta''), db)
      | Some t \<Rightarrow>
          (if \<not> has_column t ''zero''
           then (Inl (SqliteError ''table meta has no column named zero''), db)
           else if \<not> has_column t ''config''
           then (Inl (SqliteError ''table meta has no column named config''), db)
           else if list_ex (\<lambda>r. fst r = 0) (rows t)
           then (Inl (SqliteError ''UNIQUE constraint failed: meta.zero''), db)
           else
             (let r = map (\<lambda>c'. if fold_case c' = ''zero'' then Integer 0
                                 else if fold_case c' = ''config'' then Text c else Null)
                        (columns t)
              in (Inr (),
                  db\<lparr> tables :=
                    map (\<lambda>(n, t'). if fold_case n = ''meta''
                                    then (n, t\<lparr> rows := rows t @ [(0, r)] \<rparr>) else (n, t'))
                      (tables db) \<rparr>))))"

text \<open>
  \<^verbatim>\<open>db.prepare("SELECT config FROM meta").pluck().get()\<close>: the \<^verbatim>\<open>config\<close> of the first
  row of the scan, which is the row with the least rowid; \<^verbatim>\<open>undefined\<close> (here \<open>None\<close>)
  when the table has no row.
\<close>

fun first_row :: "(int \<times> cell list) list \<Rightarrow> (int \<times> cell list) option" where
  "first_row [] = None"
| "first_row (r # rs) = Some (fold (\<lambda>a b. if fst a < fst b then a else b) rs r)"

definition select_config :: "database \<Rightarrow> (error + cell option)" where
  "select_config db =
     (case find_table (tables db) ''meta'' of
        None \<Rightarrow> Inl (SqliteError ''no such table: meta'')
      | Some t \<Rightarrow>
          (if \<not> has_column t ''config'' then Inl (SqliteError ''no such column: config'')
           else (case first_row (rows t) of
                   None \<Rightarrow> Inr None
                 | Some r \<Rightarrow> Inr (Some (column t ''config'' (snd r))))))"

text \<open>The statements of a \<^verbatim>\<open>for\<close> loop run in order; the first error ends the loop.\<close>

fun run_all :: "statement list \<Rightarrow> database \<Rightarrow> unit outcome" where
  "run_all [] db = (Inr (), db)"
| "run_all (s # ss) db =
     (case run s db of
        (Inl e, db') \<Rightarrow> (Inl e, db')
      | (Inr _, db') \<Rightarrow> run_all ss db')"

definition VERSION :: string where
  "VERSION = ''slack_mirror_v0''"

text \<open>\<^verbatim>\<open>stringify({version: VERSION})\<close>\<close>

definition config :: string where
  \<open>config = ''{"version":"'' @ VERSION @ ''"}''\<close>

definition content_tables :: "statement list" where
  "content_tables =
     [CREATE_TABLE False ''channels'' [''channel_id'', ''name'', ''type''],
      CREATE_TABLE False ''members'' [''user_id'', ''name'', ''email''],
      CREATE_TABLE False ''messages''
        [''channel_id'', ''timestamp_ms'', ''author_id'', ''message_body'', ''thread'',
         ''in_reply_to''],
      CREATE_TABLE False ''message_reactions'' [''message_id'', ''reaction_name'', ''reactor''],
      CREATE_TABLE False ''message_mentions'' [''message_id'', ''mentioned_user_id'']]"

text \<open>\<^verbatim>\<open>_initialize(token)\<close>\<close>

definition initialize :: "string \<Rightarrow> database \<Rightarrow> unit outcome" where
  "initialize token db =
     (case run (CREATE_TABLE True ''meta'' [''zero'', ''config'']) db of
        (Inl e, db1) \<Rightarrow> (Inl e, db1)
      | (Inr _, db1) \<Rightarrow>
          (case select_config db1 of
             Inl e \<Rightarrow> (Inl e, db1)
           | Inr existingConfig \<Rightarrow>
               (if existingConfig = Some (Text config) then (Inr (), db1)
                else if existingConfig \<noteq> None
                then (Inl (Error
                  ''Database already populated with incompatible server or version''), db1)
                else
                  (case run (INSERT_INTO_meta config) db1 of
                     (Inl e, db2) \<Rightarrow> (Inl e, db2)
                   | (Inr _, db2) \<Rightarrow> run_all content_tables db2))))"

text \<open>
  \<^verbatim>\<open>_transaction(queries)\<close>: the \<^verbatim>\<open>try\<close> block, then the \<^verbatim>\<open>finally\<close> block, which runs on
  every way out and whose own error, if any, is the one thrown.
\<close>

definition transaction :: "(database \<Rightarrow> unit outcome) \<Rightarrow> database \<Rightarrow> unit outcome" where
  "transaction queries db =
     (if inTransaction db then (Inl (Error ''already in transaction''), db)
      else
        (let tried =
               (case run BEGIN db of
                  (Inl e, db1) \<Rightarrow> (Inl e, db1)
                | (Inr _, db1) \<Rightarrow>
                    (case queries db1 of
                       (Inl e, db2) \<Rightarrow> (Inl e, db2)
                     | (Inr _, db2) \<Rightarrow>
                         (if inTransaction db2 then run COMMIT db2 else (Inr (), db2))))
         in if inTransaction (snd tried)
            then (case run ROLLBACK (snd tried) of
                    (Inl e, db3) \<Rightarrow> (Inl e, db3)
                  | (Inr _, db3) \<Rightarrow> (fst tried, db3))
            else tried))"

text \<open>
  The constructor. \<^verbatim>\<open>db == null\<close> holds of \<^verbatim>\<open>null\<close> and of \<^verbatim>\<open>undefined\<close>. The result is
  the thrown error or the repository, which is the handle \<^verbatim>\<open>_db\<close>, beside the state the
  database is left in.
\<close>

datatype handle = NullHandle | UndefinedHandle | Handle database

fun SqliteMirrorRepository :: "handle \<Rightarrow> string \<Rightarrow> (error + unit) \<times> handle" where
  "SqliteMirrorRepository NullHandle token = (Inl (Error ''db: null''), NullHandle)"
| "SqliteMirrorRepository UndefinedHandle token =
     (Inl (Error ''db: undefined''), UndefinedHandle)"
| "SqliteMirrorRepository (Handle db) token =
     (case transaction (initialize token) db of (r, db') \<Rightarrow> (r, Handle db'))"

section \<open>Vocabulary of the properties\<close>

text \<open>
  The snapshot without the references the member map cannot resolve: every reaction
  whose reactor is unknown and every mention of an unknown user is removed, from the
  messages of the channels and from the messages looked up by id alike.
\<close>

definition dropUnknown :: "repo \<Rightarrow> repo" where
  "dropUnknown rp =
     (let known = (\<lambda>u. memberMap_of (members rp) u \<noteq> None);
          prune = (\<lambda>m. m\<lparr> mentions := filter known (mentions m) \<rparr>)
      in rp\<lparr> messages := (\<lambda>c. map prune (messages rp c)),
             reactions := (\<lambda>c i. filter (\<lambda>r. known (reactor r)) (reactions rp c i)),
             message_by_id := (\<lambda>i. prune (message_by_id rp i)) \<rparr>)"

text \<open>
  The tables of a store right after its first initialization: \<^verbatim>\<open>meta\<close> with its one
  row, and the five content tables, empty.
\<close>

definition fresh_tables :: "(string \<times> table) list" where
  "fresh_tables =
     [(''meta'',
         \<lparr> columns = [''zero'', ''config''], rows = [(0, [Integer 0, Text config])] \<rparr>),
      (''channels'', \<lparr> columns = [''channel_id'', ''name'', ''type''], rows = [] \<rparr>),
      (''members'', \<lparr> columns = [''user_id'', ''name'', ''email''], rows = [] \<rparr>),
      (''messages'',
         \<lparr> columns = [''channel_id'', ''timestamp_ms'', ''author_id'', ''message_body'',
             ''thread'', ''in_reply_to''], rows = [] \<rparr>),
      (''message_reactions'',
         \<lparr> columns = [''message_id'', ''reaction_name'', ''reactor''], rows = [] \<rparr>),
      (''message_mentions'',
         \<lparr> columns = [''message_id'', ''mentioned_user_id''], rows = [] \<rparr>)]"

subsection \<open>A small workspace for the examples\<close>

text \<open>
  Stand-ins for the outside functions, used in examples only: \<open>None\<close> plays \<^verbatim>\<open>NaN\<close>, the
  ids \<^verbatim>\<open>1\<close> and \<^verbatim>\<open>2\<close> parse and nothing else does, nothing is escaped, and the weight of
  a reaction is the list of the arguments the resolver was called with.
\<close>

definition env0 :: "(nat option, unit, string list) env" where
  "env0 =
     \<lparr> parseFloat = (\<lambda>s. if s = ''1'' then Some 1 else if s = ''2'' then Some 2 else None),
       times1000 = map_option (\<lambda>x. x * 1000),
       escape = (\<lambda>s. s),
       reactionWeight = (\<lambda>_ name reactorId authorId channelId.
         [name, reactorId, authorId, channelId]) \<rparr>"

definition alice :: user where
  "alice = \<lparr> id_user = ''A'', name_user = Some ''alice'', email = ''alice@example.org'' \<rparr>"

definition bob :: user where
  "bob = \<lparr> id_user = ''B'', name_user = None, email = ''bob@example.org'' \<rparr>"

definition general :: channel where
  "general = \<lparr> id_channel = ''C1'', name_channel = ''general'', type_channel = ''public'' \<rparr>"

text \<open>
  Message \<^verbatim>\<open>1\<close> of channel \<^verbatim>\<open>C1\<close>, written by \<^verbatim>\<open>A\<close>, and message \<^verbatim>\<open>2\<close>, written by \<^verbatim>\<open>B\<close> in
  reply to it. The examples vary the flags, the author and the mentions of message \<^verbatim>\<open>1\<close>.
\<close>

definition m1 :: message where
  "m1 = \<lparr> id_message = ''1'', channel = ''C1'', text_message = ''hello'', authorId = ''A'',
          isThread = False, inReplyTo = [], hasReactions = False, hasMentions = False,
          mentions = [] \<rparr>"

definition m2 :: message where
  "m2 = \<lparr> id_message = ''2'', channel = ''C1'', text_message = ''hi back'', authorId = ''B'',
          isThread = True, inReplyTo = ''1'', hasReactions = False, hasMentions = False,
          mentions = [] \<rparr>"

text \<open>Message \<^verbatim>\<open>1\<close> as the starter of a thread.\<close>

definition starter :: message where
  "starter = m1\<lparr> isThread := True, inReplyTo := ''1'' \<rparr>"

text \<open>Message \<^verbatim>\<open>1\<close> flagged with reactions and mentions, mentioning \<^verbatim>\<open>A\<close> and the
  unknown \<^verbatim>\<open>Y\<close>.\<close>

definition busy :: message where
  "busy = m1\<lparr> hasReactions := True, hasMentions := True, mentions := [''A'', ''Y''] \<rparr>"

text \<open>The same message written by \<^verbatim>\<open>Z\<close>, who is not a member.\<close>

definition orphan :: message where
  "orphan = busy\<lparr> authorId := ''Z'' \<rparr>"

definition thumbsup :: "string \<Rightarrow> reaction" where
  "thumbsup who = \<lparr> reaction_reaction = ''thumbsup'', reactor = who \<rparr>"

text \<open>
  The workspace with members \<^verbatim>\<open>A\<close> and \<^verbatim>\<open>B\<close>, the channel \<^verbatim>\<open>C1\<close> holding the messages
  \<open>ms\<close>, the reactions \<open>rs\<close> on message \<^verbatim>\<open>1\<close>, and message \<^verbatim>\<open>2\<close> the only reply in the thread
  of message \<^verbatim>\<open>1\<close>.
\<close>

definition workspace :: "message list \<Rightarrow> reaction list \<Rightarrow> repo" where
  "workspace ms rs =
     \<lparr> members = [alice, bob],
       channels = [general],
       messages = (\<lambda>c. if c = ''C1'' then ms else []),
       reactions = (\<lambda>c i. if c = ''C1'' \<and> i = ''1'' then rs else []),
       message_by_id = (\<lambda>i. m2),
       thread = (\<lambda>i. if i = ''1'' then [''2''] else []) \<rparr>"

text \<open>A store that holds nothing, one with a \<^verbatim>\<open>members\<close> table only, and the \<^verbatim>\<open>meta\<close>
  table of a store stamped with \<open>c\<close>.\<close>

definition pristine :: database where
  "pristine = \<lparr> tables = [], inTransaction = False, snapshot = [] \<rparr>"

definition half_made :: database where
  "half_made =
     \<lparr> tables = [(''members'', \<lparr> columns = [''user_id'', ''name'', ''email''], rows = [] \<rparr>)],
       inTransaction = False, snapshot = [] \<rparr>"

definition stamped :: "string \<Rightarrow> database" where
  "stamped c =
     \<lparr> tables = [(''meta'', \<lparr> columns = [''zero'', ''config''],
                               rows = [(0, [Integer 0, Text c])] \<rparr>)],
       inTransaction = False, snapshot = [] \<rparr>"

text \<open>
  A store whose \<^verbatim>\<open>META\<close> table was made by hand: the names are in another case and the
  row with the greater rowid was inserted first.
\<close>

definition hand_made :: database where
  "hand_made =
     \<lparr> tables = [(''META'', \<lparr> columns = [''Zero'', ''Config''],
                               rows = [(1, [Integer 1, Text ''other'']),
                                       (0, [Integer 0, Text config])] \<rparr>)],
       inTransaction = False, snapshot = [] \<rparr>"

text \<open>
  A body for \<^verbatim>\<open>_transaction\<close> that creates a table, ends the transaction itself and then
  throws:

  \<^verbatim>\<open>() => { db.prepare("CREATE TABLE scratch (x)").run(); db.prepare("COMMIT").run();
  throw new Error("late"); }\<close>
\<close>

definition commit_then_throw :: "database \<Rightarrow> unit outcome" where
  "commit_then_throw db =
     (case run_all [CREATE_TABLE False ''scratch'' [''x''], COMMIT] db of
        (Inl e, db') \<Rightarrow> (Inl e, db')
      | (Inr _, db') \<Rightarrow> (Inl (Error ''late''), db'))"

section \<open>What the graph builder emits\<close>

text \<open>
  The container only grows: every step appends to the nodes and to the edges. So the
  output of a loop is the output so far followed by what each round emits, and what a
  message emits does not depend on the graph built before it.
\<close>

lemma addNode_simps [simp]:
  "nodes (addNode n wg) = nodes wg @ [n]"
  "edges (addNode n wg) = edges wg"
  "nodeWeights (addNode n wg) = nodeWeights wg"
  by (simp_all add: addNode_def)

lemma addEdge_simps [simp]:
  "nodes (addEdge e wg) = nodes wg"
  "edges (addEdge e wg) = edges wg @ [e]"
  "nodeWeights (addEdge e wg) = nodeWeights wg"
  by (simp_all add: addEdge_def)

lemma setNodeWeight_simps [simp]:
  "nodes (setNodeWeight a w wg) = nodes wg"
  "edges (setNodeWeight a w wg) = edges wg"
  "nodeWeights (setNodeWeight a w wg) = (nodeWeights wg)(a \<mapsto> w)"
  by (simp_all add: setNodeWeight_def)

lemma emptyGraph_simps [simp]:
  "nodes emptyGraph = []"
  "edges emptyGraph = []"
  "nodeWeights emptyGraph = Map.empty"
  by (simp_all add: emptyGraph_def)

lemma reactionStep_unknown:
  "memberMap (reactor r) = None \<Longrightarrow> reactionStep X weights memberMap message r st = st"
  by (simp add: reactionStep_def)

lemma reactionStep_known:
  assumes "memberMap (reactor r) = Some u"
  shows "nodes (fst (reactionStep X weights memberMap message r st)) =
           nodes (fst st) @ [reactionNode X message (Obj r), memberNode X u]"
    and "edges (fst (reactionStep X weights memberMap message r st)) =
           edges (fst st) @ [reactsToEdge X (Str (reaction_reaction r)) message,
             addsReactionEdge X (Str (reaction_reaction r)) u message]"
    and "snd (reactionStep X weights memberMap message r st)"
  using assms by (simp_all add: reactionStep_def Let_def)

lemma mentionStep_unknown:
  "memberMap v = None \<Longrightarrow> mentionStep X memberMap message v st = st"
  by (simp add: mentionStep_def)

lemma mentionStep_known:
  assumes "memberMap v = Some u"
  shows "nodes (fst (mentionStep X memberMap message v st)) =
           nodes (fst st) @ [memberNode X u]"
    and "edges (fst (mentionStep X memberMap message v st)) =
           edges (fst st) @ [mentionsEdge X message u]"
    and "snd (mentionStep X memberMap message v st)"
  using assms by (simp_all add: mentionStep_def Let_def)

lemma reactions_loop_nodes:
  "nodes (fst (fold (reactionStep X weights memberMap message) rs st)) =
     nodes (fst st) @ concat (map (\<lambda>r. case memberMap (reactor r) of None \<Rightarrow> []
       | Some u \<Rightarrow> [reactionNode X message (Obj r), memberNode X u]) rs)"
proof (induction rs arbitrary: st)
  case Nil
  show ?case by simp
next
  case (Cons r rs)
  show ?case
    by (cases "memberMap (reactor r)")
      (simp_all add: Cons.IH reactionStep_unknown reactionStep_known)
qed

lemma reactions_loop_edges:
  "edges (fst (fold (reactionStep X weights memberMap message) rs st)) =
     edges (fst st) @ concat (map (\<lambda>r. case memberMap (reactor r) of None \<Rightarrow> []
       | Some u \<Rightarrow> [reactsToEdge X (Str (reaction_reaction r)) message,
           addsReactionEdge X (Str (reaction_reaction r)) u message]) rs)"
proof (induction rs arbitrary: st)
  case Nil
  show ?case by simp
next
  case (Cons r rs)
  show ?case
    by (cases "memberMap (reactor r)")
      (simp_all add: Cons.IH reactionStep_unknown reactionStep_known)
qed

lemma reactions_loop_flag:
  "snd (fold (reactionStep X weights memberMap message) rs st) =
     (snd st \<or> (\<exists>r \<in> set rs. memberMap (reactor r) \<noteq> None))"
proof (induction rs arbitrary: st)
  case Nil
  show ?case by simp
next
  case (Cons r rs)
  show ?case
    by (cases "memberMap (reactor r)")
      (auto simp add: Cons.IH reactionStep_unknown reactionStep_known)
qed

lemma mentions_loop_nodes:
  "nodes (fst (fold (mentionStep X memberMap message) vs st)) =
     nodes (fst st) @ concat (map (\<lambda>v. case memberMap v of None \<Rightarrow> []
       | Some u \<Rightarrow> [memberNode X u]) vs)"
proof (induction vs arbitrary: st)
  case Nil
  show ?case by simp
next
  case (Cons v vs)
  show ?case
    by (cases "memberMap v")
      (simp_all add: Cons.IH mentionStep_unknown mentionStep_known)
qed

lemma mentions_loop_edges:
  "edges (fst (fold (mentionStep X memberMap message) vs st)) =
     edges (fst st) @ concat (map (\<lambda>v. case memberMap v of None \<Rightarrow> []
       | Some u \<Rightarrow> [mentionsEdge X message u]) vs)"
proof (induction vs arbitrary: st)
  case Nil
  show ?case by simp
next
  case (Cons v vs)
  show ?case
    by (cases "memberMap v")
      (simp_all add: Cons.IH mentionStep_unknown mentionStep_known)
qed

lemma mentions_loop_flag:
  "snd (fold (mentionStep X memberMap message) vs st) =
     (snd st \<or> (\<exists>v \<in> set vs. memberMap v \<noteq> None))"
proof (induction vs arbitrary: st)
  case Nil
  show ?case by simp
next
  case (Cons v vs)
  show ?case
    by (cases "memberMap v")
      (auto simp add: Cons.IH mentionStep_unknown mentionStep_known)
qed

lemma replies_loop_nodes:
  "nodes (fold (replyStep X rp ch message) ids wg) =
     nodes wg @ map (\<lambda>i. messageNode X (message_by_id rp i) (name_channel ch)) ids"
  by (induction ids arbitrary: wg) (simp_all add: replyStep_def Let_def)

lemma replies_loop_edges:
  "edges (fold (replyStep X rp ch message) ids wg) =
     edges wg @ map (\<lambda>i. repliesEdge X message (message_by_id rp i)) ids"
  by (induction ids arbitrary: wg) (simp_all add: replyStep_def Let_def)


lemma processMessage_nodes:
  "nodes (processMessage X rp weights memberMap ch message wg) =
     nodes wg @
     (if \<not> hasReactions message \<and> \<not> hasMentions message then []
      else
        concat (map (\<lambda>r. case memberMap (reactor r) of None \<Rightarrow> []
          | Some u \<Rightarrow> [reactionNode X message (Obj r), memberNode X u])
          (reactions rp (channel message) (id_message message)))
        @ concat (map (\<lambda>v. case memberMap v of None \<Rightarrow> [] | Some u \<Rightarrow> [memberNode X u])
            (mentions message))
        @ (if isThread message \<and> inReplyTo message = id_message message
           then messageNode X message (name_channel ch)
             # map (\<lambda>i. messageNode X (message_by_id rp i) (name_channel ch))
                 (thread rp (id_message message))
           else [])
        @ (if (\<exists>r \<in> set (reactions rp (channel message) (id_message message)).
                 memberMap (reactor r) \<noteq> None)
              \<or> (\<exists>v \<in> set (mentions message). memberMap v \<noteq> None)
           then (case memberMap (authorId message) of None \<Rightarrow> []
             | Some author \<Rightarrow>
                 [memberNode X author, messageNode X message (name_channel ch)])
           else []))"
  by (simp add: processMessage_def Let_def reactions_loop_nodes reactions_loop_flag
      mentions_loop_nodes mentions_loop_flag replies_loop_nodes split: option.split)

lemma processMessage_edges:
  "edges (processMessage X rp weights memberMap ch message wg) =
     edges wg @
     (if \<not> hasReactions message \<and> \<not> hasMentions message then []
      else
        concat (map (\<lambda>r. case memberMap (reactor r) of None \<Rightarrow> []
          | Some u \<Rightarrow> [reactsToEdge X (Str (reaction_reaction r)) message,
              addsReactionEdge X (Str (reaction_reaction r)) u message])
          (reactions rp (channel message) (id_message message)))
        @ concat (map (\<lambda>v. case memberMap v of None \<Rightarrow> []
            | Some u \<Rightarrow> [mentionsEdge X message u]) (mentions message))
        @ (if isThread message \<and> inReplyTo message = id_message message
           then map (\<lambda>i. repliesEdge X message (message_by_id rp i))
                  (thread rp (id_message message))
           else [])
        @ (if (\<exists>r \<in> set (reactions rp (channel message) (id_message message)).
                 memberMap (reactor r) \<noteq> None)
              \<or> (\<exists>v \<in> set (mentions message). memberMap v \<noteq> None)
           then (case memberMap (authorId message) of None \<Rightarrow> []
             | Some author \<Rightarrow> [authorsMessageEdge X message author])
           else []))"
  by (simp add: processMessage_def Let_def reactions_loop_edges reactions_loop_flag
      mentions_loop_edges mentions_loop_flag replies_loop_edges split: option.split)

lemma processMessage_nodes_append:
  "nodes (processMessage X rp weights memberMap ch message wg) =
     nodes wg @ nodes (processMessage X rp weights memberMap ch message emptyGraph)"
  by (simp only: processMessage_nodes [of X rp weights memberMap ch message wg]
      processMessage_nodes [of X rp weights memberMap ch message emptyGraph]
      emptyGraph_simps append_Nil)

lemma processMessage_edges_append:
  "edges (processMessage X rp weights memberMap ch message wg) =
     edges wg @ edges (processMessage X rp weights memberMap ch message emptyGraph)"
  by (simp only: processMessage_edges [of X rp weights memberMap ch message wg]
      processMessage_edges [of X rp weights memberMap ch message emptyGraph]
      emptyGraph_simps append_Nil)

lemma messages_loop_nodes:
  "nodes (fold (processMessage X rp weights memberMap ch) ms wg) =
     nodes wg @ concat (map (\<lambda>m. nodes (processMessage X rp weights memberMap ch m emptyGraph)) ms)"
proof (induction ms arbitrary: wg)
  case Nil
  show ?case by simp
next
  case (Cons m ms)
  show ?case
    using processMessage_nodes_append [of X rp weights memberMap ch m wg]
    by (simp add: Cons.IH)
qed

lemma messages_loop_edges:
  "edges (fold (processMessage X rp weights memberMap ch) ms wg) =
     edges wg @ concat (map (\<lambda>m. edges (processMessage X rp weights memberMap ch m emptyGraph)) ms)"
proof (induction ms arbitrary: wg)
  case Nil
  show ?case by simp
next
  case (Cons m ms)
  show ?case
    using processMessage_edges_append [of X rp weights memberMap ch m wg]
    by (simp add: Cons.IH)
qed

lemma channels_loop_nodes:
  "nodes (fold (processChannel X rp weights memberMap) cs wg) =
     nodes wg @ concat (map (\<lambda>ch. concat (map
       (\<lambda>m. nodes (processMessage X rp weights memberMap ch m emptyGraph))
       (messages rp (id_channel ch)))) cs)"
  by (induction cs arbitrary: wg) (simp_all add: processChannel_def messages_loop_nodes)

lemma channels_loop_edges:
  "edges (fold (processChannel X rp weights memberMap) cs wg) =
     edges wg @ concat (map (\<lambda>ch. concat (map
       (\<lambda>m. edges (processMessage X rp weights memberMap ch m emptyGraph))
       (messages rp (id_channel ch)))) cs)"
  by (induction cs arbitrary: wg) (simp_all add: processChannel_def messages_loop_edges)

lemma createGraph_node_iff:
  "n \<in> set (nodes (createGraph X token rp weights)) \<longleftrightarrow>
     (\<exists>ch \<in> set (channels rp). \<exists>m \<in> set (messages rp (id_channel ch)).
        n \<in> set (nodes (processMessage X rp weights (memberMap_of (members rp)) ch m emptyGraph)))"
  by (simp add: createGraph_def Let_def channels_loop_nodes)

lemma createGraph_edge_iff:
  "e \<in> set (edges (createGraph X token rp weights)) \<longleftrightarrow>
     (\<exists>ch \<in> set (channels rp). \<exists>m \<in> set (messages rp (id_channel ch)).
        e \<in> set (edges (processMessage X rp weights (memberMap_of (members rp)) ch m emptyGraph)))"
  by (simp add: createGraph_def Let_def channels_loop_edges)

text \<open>The nodes and the edges a single message emits, read as sets.\<close>

lemma namespace_simps [simp]:
  "fst (node.address (memberNode X u)) = MemberNS"
  "fst (node.address (messageNode X m cn)) = MessageNS"
  "fst (node.address (reactionNode X m r)) = ReactionNS"
  "fst (edge.address (authorsMessageEdge X m u)) = AuthorsMessageNS"
  "fst (edge.address (addsReactionEdge X r u m)) = AddsReactionNS"
  "fst (edge.address (reactsToEdge X r m)) = ReactsToNS"
  "fst (edge.address (mentionsEdge X m u)) = MentionsNS"
  "fst (edge.address (repliesEdge X m m')) = MessageRepliesNS"
  by (simp_all add: memberNode_def messageNode_def reactionNode_def authorsMessageEdge_def
      addsReactionEdge_def reactsToEdge_def mentionsEdge_def repliesEdge_def
      memberAddress_def messageAddress_def reactionAddress_def append_def Let_def
      memberNodeType_prefix_def messageNodeType_prefix_def reactionNodeType_prefix_def
      authorsMessageEdgeType_prefix_def addsReactionEdgeType_prefix_def
      reactsToEdgeType_prefix_def mentionsEdgeType_prefix_def
      messageRepliesEdgeType_prefix_def)

lemma in_concat_case2:
  "x \<in> set (concat (map (\<lambda>r. case k r of None \<Rightarrow> [] | Some u \<Rightarrow> [f r u, g r u]) rs)) \<longleftrightarrow>
     (\<exists>r \<in> set rs. \<exists>u. k r = Some u \<and> (x = f r u \<or> x = g r u))"
proof (induction rs)
  case Nil
  show ?case by simp
next
  case (Cons r rs)
  show ?case
    unfolding list.map concat.simps set_append Un_iff Cons.IH
    by (cases "k r") auto
qed

lemma in_concat_case1:
  "x \<in> set (concat (map (\<lambda>r. case k r of None \<Rightarrow> [] | Some u \<Rightarrow> [f r u]) rs)) \<longleftrightarrow>
     (\<exists>r \<in> set rs. \<exists>u. k r = Some u \<and> x = f r u)"
proof (induction rs)
  case Nil
  show ?case by simp
next
  case (Cons r rs)
  show ?case
    unfolding list.map concat.simps set_append Un_iff Cons.IH
    by (cases "k r") auto
qed

lemma in_case2:
  "x \<in> set (case k of None \<Rightarrow> [] | Some u \<Rightarrow> [f u, g u]) \<longleftrightarrow>
     (\<exists>u. k = Some u \<and> (x = f u \<or> x = g u))"
  by (cases k) auto

lemma in_case1:
  "x \<in> set (case k of None \<Rightarrow> [] | Some u \<Rightarrow> [f u]) \<longleftrightarrow> (\<exists>u. k = Some u \<and> x = f u)"
  by (cases k) auto

lemma message_node_cases:
  "n \<in> set (nodes (processMessage X rp weights memberMap ch m emptyGraph)) \<longleftrightarrow>
     (hasReactions m \<or> hasMentions m) \<and>
     ((\<exists>r \<in> set (reactions rp (channel m) (id_message m)). \<exists>u. memberMap (reactor r) = Some u \<and>
          (n = reactionNode X m (Obj r) \<or> n = memberNode X u))
      \<or> (\<exists>v \<in> set (mentions m). \<exists>u. memberMap v = Some u \<and> n = memberNode X u)
      \<or> (isThread m \<and> inReplyTo m = id_message m \<and>
           (n = messageNode X m (name_channel ch)
            \<or> (\<exists>i \<in> set (thread rp (id_message m)).
                 n = messageNode X (message_by_id rp i) (name_channel ch))))
      \<or> (((\<exists>r \<in> set (reactions rp (channel m) (id_message m)). memberMap (reactor r) \<noteq> None)
            \<or> (\<exists>v \<in> set (mentions m). memberMap v \<noteq> None))
          \<and> (\<exists>a. memberMap (authorId m) = Some a \<and>
                (n = memberNode X a \<or> n = messageNode X m (name_channel ch)))))"
proof (cases "hasReactions m \<or> hasMentions m")
  case False
  then show ?thesis by (simp add: processMessage_nodes)
next
  case True
  then have flagged: "\<not> (\<not> hasReactions m \<and> \<not> hasMentions m)" by simp
  show ?thesis
    unfolding processMessage_nodes emptyGraph_simps append_Nil if_not_P [OF flagged]
      set_append Un_iff
      in_concat_case2 [where k = "\<lambda>r. memberMap (reactor r)"
        and f = "\<lambda>r u. reactionNode X m (Obj r)" and g = "\<lambda>r u. memberNode X u"]
      in_concat_case1 [where k = memberMap and f = "\<lambda>v u. memberNode X u"]
    using True
    by (cases "isThread m \<and> inReplyTo m = id_message m";
        cases "(\<exists>r \<in> set (reactions rp (channel m) (id_message m)). memberMap (reactor r) \<noteq> None)
            \<or> (\<exists>v \<in> set (mentions m). memberMap v \<noteq> None)")
      (simp_all only: if_P if_not_P in_case2 list.set insert_iff empty_iff
        set_map image_iff simp_thms, blast+)
qed

lemma message_edge_cases:
  "e \<in> set (edges (processMessage X rp weights memberMap ch m emptyGraph)) \<longleftrightarrow>
     (hasReactions m \<or> hasMentions m) \<and>
     ((\<exists>r \<in> set (reactions rp (channel m) (id_message m)). \<exists>u. memberMap (reactor r) = Some u \<and>
          (e = reactsToEdge X (Str (reaction_reaction r)) m
           \<or> e = addsReactionEdge X (Str (reaction_reaction r)) u m))
      \<or> (\<exists>v \<in> set (mentions m). \<exists>u. memberMap v = Some u \<and> e = mentionsEdge X m u)
      \<or> (isThread m \<and> inReplyTo m = id_message m \<and>
           (\<exists>i \<in> set (thread rp (id_message m)). e = repliesEdge X m (message_by_id rp i)))
      \<or> (((\<exists>r \<in> set (reactions rp (channel m) (id_message m)). memberMap (reactor r) \<noteq> None)
            \<or> (\<exists>v \<in> set (mentions m). memberMap v \<noteq> None))
          \<and> (\<exists>a. memberMap (authorId m) = Some a \<and> e = authorsMessageEdge X m a)))"
proof (cases "hasReactions m \<or> hasMentions m")
  case False
  then show ?thesis by (simp add: processMessage_edges)
next
  case True
  then have flagged: "\<not> (\<not> hasReactions m \<and> \<not> hasMentions m)" by simp
  show ?thesis
    unfolding processMessage_edges emptyGraph_simps append_Nil if_not_P [OF flagged]
      set_append Un_iff
      in_concat_case2 [where k = "\<lambda>r. memberMap (reactor r)"
        and f = "\<lambda>r u. reactsToEdge X (Str (reaction_reaction r)) m"
        and g = "\<lambda>r u. addsReactionEdge X (Str (reaction_reaction r)) u m"]
      in_concat_case1 [where k = memberMap and f = "\<lambda>v u. mentionsEdge X m u"]
    using True
    by (cases "isThread m \<and> inReplyTo m = id_message m";
        cases "(\<exists>r \<in> set (reactions rp (channel m) (id_message m)). memberMap (reactor r) \<noteq> None)
            \<or> (\<exists>v \<in> set (mentions m). memberMap v \<noteq> None)")
      (simp_all only: if_P if_not_P in_case1 list.set insert_iff empty_iff
        set_map image_iff simp_thms, blast+)
qed

lemma concat_all_unknown:
  "(\<And>r. r \<in> set rs \<Longrightarrow> k r = None) \<Longrightarrow>
     concat (map (\<lambda>r. case k r of None \<Rightarrow> [] | Some u \<Rightarrow> f r u) rs) = []"
  by (induction rs) simp_all

lemma thread_starter_present:
  assumes ch: "ch \<in> set (channels rp)"
    and m: "m \<in> set (messages rp (id_channel ch))"
    and flagged: "hasReactions m \<or> hasMentions m"
    and starter: "isThread m" "inReplyTo m = id_message m"
  shows "messageNode X m (name_channel ch) \<in> set (nodes (createGraph X token rp weights))"
    and "i \<in> set (thread rp (id_message m)) \<Longrightarrow>
       messageNode X (message_by_id rp i) (name_channel ch)
         \<in> set (nodes (createGraph X token rp weights))"
    and "i \<in> set (thread rp (id_message m)) \<Longrightarrow>
       repliesEdge X m (message_by_id rp i) \<in> set (edges (createGraph X token rp weights))"
proof -
  let ?mm = "memberMap_of (members rp)"
  have "messageNode X m (name_channel ch)
      \<in> set (nodes (processMessage X rp weights ?mm ch m emptyGraph))"
    unfolding message_node_cases using flagged starter by blast
  then show "messageNode X m (name_channel ch) \<in> set (nodes (createGraph X token rp weights))"
    unfolding createGraph_node_iff using ch m by blast
next
  let ?mm = "memberMap_of (members rp)"
  assume i: "i \<in> set (thread rp (id_message m))"
  have "messageNode X (message_by_id rp i) (name_channel ch)
      \<in> set (nodes (processMessage X rp weights ?mm ch m emptyGraph))"
    unfolding message_node_cases using flagged starter i by blast
  then show "messageNode X (message_by_id rp i) (name_channel ch)
      \<in> set (nodes (createGraph X token rp weights))"
    unfolding createGraph_node_iff using ch m by blast
next
  let ?mm = "memberMap_of (members rp)"
  assume i: "i \<in> set (thread rp (id_message m))"
  have "repliesEdge X m (message_by_id rp i)
      \<in> set (edges (processMessage X rp weights ?mm ch m emptyGraph))"
    unfolding message_edge_cases using flagged starter i by blast
  then show "repliesEdge X m (message_by_id rp i)
      \<in> set (edges (createGraph X token rp weights))"
    unfolding createGraph_edge_iff using ch m by blast
qed

lemma unmaterialised_starter_output:
  assumes flagged: "hasReactions m \<or> hasMentions m"
    and starter: "isThread m" "inReplyTo m = id_message m"
    and no_reaction: "\<And>r. r \<in> set (reactions rp (channel m) (id_message m)) \<Longrightarrow>
        memberMap (reactor r) = None"
    and no_mention: "\<And>v. v \<in> set (mentions m) \<Longrightarrow> memberMap v = None"
  shows "nodes (processMessage X rp weights memberMap ch m emptyGraph) =
           messageNode X m (name_channel ch)
             # map (\<lambda>i. messageNode X (message_by_id rp i) (name_channel ch))
                 (thread rp (id_message m))"
    and "edges (processMessage X rp weights memberMap ch m emptyGraph) =
           map (\<lambda>i. repliesEdge X m (message_by_id rp i)) (thread rp (id_message m))"
proof -
  have flag: "\<not> (\<not> hasReactions m \<and> \<not> hasMentions m)" using flagged by simp
  have none: "\<not> ((\<exists>r \<in> set (reactions rp (channel m) (id_message m)).
        memberMap (reactor r) \<noteq> None) \<or> (\<exists>v \<in> set (mentions m). memberMap v \<noteq> None))"
    using no_reaction no_mention by auto
  have st: "isThread m \<and> inReplyTo m = id_message m" using starter by simp
  show "nodes (processMessage X rp weights memberMap ch m emptyGraph) =
           messageNode X m (name_channel ch)
             # map (\<lambda>i. messageNode X (message_by_id rp i) (name_channel ch))
                 (thread rp (id_message m))"
    unfolding processMessage_nodes if_not_P [OF flag] if_not_P [OF none] if_P [OF st]
    by (simp add: concat_all_unknown [where k = "\<lambda>r. memberMap (reactor r)", OF no_reaction]
        concat_all_unknown [where k = memberMap, OF no_mention])
  show "edges (processMessage X rp weights memberMap ch m emptyGraph) =
           map (\<lambda>i. repliesEdge X m (message_by_id rp i)) (thread rp (id_message m))"
    unfolding processMessage_edges if_not_P [OF flag] if_not_P [OF none] if_P [OF st]
    by (simp add: concat_all_unknown [where k = "\<lambda>r. memberMap (reactor r)", OF no_reaction]
        concat_all_unknown [where k = memberMap, OF no_mention])
qed

lemma unflagged_skipped:
  "\<not> hasReactions m \<Longrightarrow> \<not> hasMentions m \<Longrightarrow>
     processMessage X rp weights memberMap ch m wg = wg"
  by (simp add: processMessage_def)

subsection \<open>Evaluation of the examples\<close>

lemmas builder_defs =
  createGraph_def processChannel_def processMessage_def reactionStep_def mentionStep_def
  replyStep_def memberMap_of_def emptyGraph_def addNode_def addEdge_def setNodeWeight_def
  Let_def

lemmas record_defs =
  memberNode_def messageNode_def reactionNode_def authorsMessageEdge_def addsReactionEdge_def
  reactsToEdge_def mentionsEdge_def repliesEdge_def messageTimestamp_def
  memberAddress_def messageAddress_def reactionAddress_def append_def
  memberNodeType_prefix_def messageNodeType_prefix_def reactionNodeType_prefix_def
  authorsMessageEdgeType_prefix_def addsReactionEdgeType_prefix_def
  reactsToEdgeType_prefix_def mentionsEdgeType_prefix_def messageRepliesEdgeType_prefix_def
  MESSAGE_LENGTH_def

section \<open>Thread starters\<close>

text \<open>
  Claim C1, as the spec states it, fails: the loop body starts with
  \<^verbatim>\<open>if (!message.hasReactions && !message.hasMentions) continue\<close>, so a thread starter
  flagged with neither reactions nor mentions is skipped before the thread step is
  reached. In the workspace below the starter has a reply, and the graph is empty.
\<close>

theorem C1_unflagged_starter_counterexample:
  "general \<in> set (channels (workspace [starter, m2] []))
   \<and> starter \<in> set (messages (workspace [starter, m2] []) (id_channel general))
   \<and> isThread starter \<and> inReplyTo starter = id_message starter
   \<and> thread (workspace [starter, m2] []) (id_message starter) = [''2'']
   \<and> messageNode env0 starter (name_channel general)
        \<notin> set (nodes (createGraph env0 [] (workspace [starter, m2] []) ()))
   \<and> nodes (createGraph env0 [] (workspace [starter, m2] []) ()) = []
   \<and> edges (createGraph env0 [] (workspace [starter, m2] []) ()) = []"
  by (simp add: workspace_def env0_def alice_def bob_def general_def m1_def m2_def starter_def builder_defs)

text \<open>
  Claim C1, amended: for every thread starter that is flagged as having reactions or
  mentions, the graph holds the starter's Message node and, for every reply id the
  repository lists, the reply's Message node and the RepliesTo edge from the starter
  to the reply. No condition on the flag \<^verbatim>\<open>hasEdges\<close> or on the author is needed. When
  none of the reactions and mentions resolves, these Message nodes and RepliesTo edges
  are all the message emits, so no AuthorsMessage edge. A message flagged with neither
  reactions nor mentions leaves the graph as it was.
\<close>

theorem C1_flagged_thread_starter:
  assumes ch: "ch \<in> set (channels rp)"
    and m: "m \<in> set (messages rp (id_channel ch))"
    and flagged: "hasReactions m \<or> hasMentions m"
    and starter: "isThread m" "inReplyTo m = id_message m"
  shows "messageNode X m (name_channel ch) \<in> set (nodes (createGraph X token rp weights))
    \<and> (\<forall>i \<in> set (thread rp (id_message m)).
          messageNode X (message_by_id rp i) (name_channel ch)
            \<in> set (nodes (createGraph X token rp weights))
          \<and> repliesEdge X m (message_by_id rp i)
            \<in> set (edges (createGraph X token rp weights)))
    \<and> ((\<forall>r \<in> set (reactions rp (channel m) (id_message m)).
           memberMap_of (members rp) (reactor r) = None)
        \<and> (\<forall>v \<in> set (mentions m). memberMap_of (members rp) v = None) \<longrightarrow>
        nodes (processMessage X rp weights (memberMap_of (members rp)) ch m emptyGraph) =
          messageNode X m (name_channel ch)
            # map (\<lambda>i. messageNode X (message_by_id rp i) (name_channel ch))
                (thread rp (id_message m))
        \<and> edges (processMessage X rp weights (memberMap_of (members rp)) ch m emptyGraph) =
          map (\<lambda>i. repliesEdge X m (message_by_id rp i)) (thread rp (id_message m)))
    \<and> (\<not> hasReactions m' \<and> \<not> hasMentions m' \<longrightarrow>
        processMessage X rp weights memberMap ch' m' wg = wg)"
  using thread_starter_present [OF ch m flagged starter,
      where X = X and token = token and weights = weights]
    unmaterialised_starter_output [OF flagged starter,
      where rp = rp and memberMap = "memberMap_of (members rp)" and X = X
        and weights = weights and ch = ch]
    unflagged_skipped [where m = m' and X = X and rp = rp and weights = weights
      and memberMap = memberMap and ch = ch' and wg = wg]
  by blast

theorem C1_flagged_thread_starter_witness:
  "general \<in> set (channels (workspace [starter\<lparr> hasReactions := True \<rparr>, m1] [thumbsup ''Z'']))
   \<and> starter\<lparr> hasReactions := True \<rparr>
        \<in> set (messages (workspace [starter\<lparr> hasReactions := True \<rparr>, m1] [thumbsup ''Z''])
            (id_channel general))
   \<and> hasReactions (starter\<lparr> hasReactions := True \<rparr>)
   \<and> isThread (starter\<lparr> hasReactions := True \<rparr>)
   \<and> inReplyTo (starter\<lparr> hasReactions := True \<rparr>)
        = id_message (starter\<lparr> hasReactions := True \<rparr>)
   \<and> memberMap_of [alice, bob] ''Z'' = None
   \<and> \<not> hasReactions m1 \<and> \<not> hasMentions m1
   \<and> messageNode env0 (starter\<lparr> hasReactions := True \<rparr>) ''general''
        \<in> set (nodes (createGraph env0 []
            (workspace [starter\<lparr> hasReactions := True \<rparr>, m1] [thumbsup ''Z'']) ()))
   \<and> messageNode env0 m2 ''general''
        \<in> set (nodes (createGraph env0 []
            (workspace [starter\<lparr> hasReactions := True \<rparr>, m1] [thumbsup ''Z'']) ()))
   \<and> repliesEdge env0 (starter\<lparr> hasReactions := True \<rparr>) m2
        \<in> set (edges (createGraph env0 []
            (workspace [starter\<lparr> hasReactions := True \<rparr>, m1] [thumbsup ''Z'']) ()))
   \<and> edges (processMessage env0
          (workspace [starter\<lparr> hasReactions := True \<rparr>, m1] [thumbsup ''Z'']) ()
          (memberMap_of [alice, bob]) general (starter\<lparr> hasReactions := True \<rparr>) emptyGraph)
        = [repliesEdge env0 (starter\<lparr> hasReactions := True \<rparr>) m2]
   \<and> processMessage env0 (workspace [starter\<lparr> hasReactions := True \<rparr>, m1] [thumbsup ''Z''])
          () (memberMap_of [alice, bob]) general m1 emptyGraph = emptyGraph"
  (is "?h1 \<and> ?h2 \<and> ?h3 \<and> ?h4 \<and> ?h5 \<and> ?h6 \<and> ?h7 \<and> ?h8 \<and> ?rest")
proof -
  let ?s = "starter\<lparr> hasReactions := True \<rparr>"
  let ?W = "workspace [?s, m1] [thumbsup ''Z'']"
  have h1: ?h1 by (simp add: workspace_def)
  have h2: ?h2 by (simp add: workspace_def general_def)
  have h3: "hasReactions ?s \<or> hasMentions ?s" by simp
  have h4: "isThread ?s" by (simp add: starter_def)
  have h5: "inReplyTo ?s = id_message ?s" by (simp add: starter_def m1_def)
  have h6: ?h6 by (simp add: memberMap_of_def alice_def bob_def)
  have h78: "\<not> hasReactions m1 \<and> \<not> hasMentions m1" by (simp add: m1_def)
  show ?thesis
    using C1_flagged_thread_starter [OF h1 h2 h3 h4 h5, where X = env0 and token = "[]"
        and weights = "()" and m' = m1 and memberMap = "memberMap_of [alice, bob]"
        and ch' = general and wg = emptyGraph]
      h1 h2 h4 h5 h6 h78
    by (simp add: workspace_def starter_def m1_def general_def thumbsup_def)
qed

section \<open>Which messages become nodes\<close>


lemma unresolved_plain_message_skipped:
  assumes plain: "\<not> (isThread m \<and> inReplyTo m = id_message m)"
    and no_reaction: "\<And>r. r \<in> set (reactions rp (channel m) (id_message m)) \<Longrightarrow>
        memberMap (reactor r) = None"
    and no_mention: "\<And>v. v \<in> set (mentions m) \<Longrightarrow> memberMap v = None"
  shows "processMessage X rp weights memberMap ch m wg = wg"
proof -
  have r: "fold (reactionStep X weights memberMap m) rs st = st"
    if "\<And>r. r \<in> set rs \<Longrightarrow> memberMap (reactor r) = None" for rs st
    using that by (induction rs arbitrary: st) (simp_all add: reactionStep_unknown)
  have v: "fold (mentionStep X memberMap m) vs st = st"
    if "\<And>v. v \<in> set vs \<Longrightarrow> memberMap v = None" for vs st
    using that by (induction vs arbitrary: st) (simp_all add: mentionStep_unknown)
  have plain': "(isThread m \<and> inReplyTo m = id_message m) = False" using plain by simp
  show ?thesis
    by (simp add: processMessage_def Let_def r [OF no_reaction] v [OF no_mention] plain')
qed

lemma message_node_origin:
  assumes n: "n \<in> set (nodes (createGraph X token rp weights))"
    and ns: "fst (node.address n) = MessageNS"
  shows "\<exists>ch \<in> set (channels rp). \<exists>m \<in> set (messages rp (id_channel ch)).
           (hasReactions m \<or> hasMentions m)
           \<and> ((isThread m \<and> inReplyTo m = id_message m
                 \<and> (n = messageNode X m (name_channel ch)
                      \<or> (\<exists>i \<in> set (thread rp (id_message m)).
                           n = messageNode X (message_by_id rp i) (name_channel ch))))
               \<or> (((\<exists>r \<in> set (reactions rp (channel m) (id_message m)).
                        memberMap_of (members rp) (reactor r) \<noteq> None)
                     \<or> (\<exists>v \<in> set (mentions m). memberMap_of (members rp) v \<noteq> None))
                   \<and> memberMap_of (members rp) (authorId m) \<noteq> None
                   \<and> n = messageNode X m (name_channel ch)))"
proof -
  let ?mm = "memberMap_of (members rp)"
  from n obtain ch m where ch: "ch \<in> set (channels rp)"
    and m: "m \<in> set (messages rp (id_channel ch))"
    and emitted: "n \<in> set (nodes (processMessage X rp weights ?mm ch m emptyGraph))"
    unfolding createGraph_node_iff by blast
  have not_member: "n \<noteq> memberNode X u" for u
    using ns namespace_simps(1) [of X u] by auto
  have not_reaction: "n \<noteq> reactionNode X m' r" for m' r
    using ns namespace_simps(3) [of X m' r] by auto
  from emitted have flagged: "hasReactions m \<or> hasMentions m"
    unfolding message_node_cases by blast
  from emitted not_member not_reaction
  have "(isThread m \<and> inReplyTo m = id_message m
          \<and> (n = messageNode X m (name_channel ch)
               \<or> (\<exists>i \<in> set (thread rp (id_message m)).
                    n = messageNode X (message_by_id rp i) (name_channel ch))))
        \<or> (((\<exists>r \<in> set (reactions rp (channel m) (id_message m)). ?mm (reactor r) \<noteq> None)
              \<or> (\<exists>v \<in> set (mentions m). ?mm v \<noteq> None))
            \<and> ?mm (authorId m) \<noteq> None
            \<and> n = messageNode X m (name_channel ch))"
    unfolding message_node_cases by blast
  with ch m flagged show ?thesis by blast
qed

text \<open>
  The thread step adds the starter's own node before it walks the replies, so a flagged
  starter whose thread lists no reply has a node although none of its reactions
  resolves and no edge touches it.
\<close>

lemma starter_without_replies_has_node:
  "thread ((workspace [starter\<lparr> hasReactions := True \<rparr>] [thumbsup ''Z''])
            \<lparr> thread := (\<lambda>i. []) \<rparr>) ''1'' = []
   \<and> createGraph env0 []
        ((workspace [starter\<lparr> hasReactions := True \<rparr>] [thumbsup ''Z''])
           \<lparr> thread := (\<lambda>i. []) \<rparr>) ()
       = \<lparr> nodes = [messageNode env0 (starter\<lparr> hasReactions := True \<rparr>) ''general''],
           edges = [], nodeWeights = Map.empty \<rparr>"
  by (simp add: workspace_def env0_def alice_def bob_def general_def m1_def starter_def
      thumbsup_def emptyGraph_def builder_defs)



section \<open>References to unknown members\<close>

lemma fold_filter_skip:
  assumes "\<And>x s. x \<in> set xs \<Longrightarrow> \<not> P x \<Longrightarrow> f x s = s"
  shows "fold f (filter P xs) s = fold f xs s"
  using assms by (induction xs arbitrary: s) simp_all

lemma mentions_update_irrelevant:
  "messageAddress (m\<lparr> mentions := vs \<rparr>) = messageAddress m"
  "reactionAddress r (m\<lparr> mentions := vs \<rparr>) = reactionAddress r m"
  "messageTimestamp X (m\<lparr> mentions := vs \<rparr>) = messageTimestamp X m"
  "messageNode X (m\<lparr> mentions := vs \<rparr>) cn = messageNode X m cn"
  "reactionNode X (m\<lparr> mentions := vs \<rparr>) r = reactionNode X m r"
  "authorsMessageEdge X (m\<lparr> mentions := vs \<rparr>) u = authorsMessageEdge X m u"
  "addsReactionEdge X r u (m\<lparr> mentions := vs \<rparr>) = addsReactionEdge X r u m"
  "reactsToEdge X r (m\<lparr> mentions := vs \<rparr>) = reactsToEdge X r m"
  "mentionsEdge X (m\<lparr> mentions := vs \<rparr>) u = mentionsEdge X m u"
  "repliesEdge X (m\<lparr> mentions := vs \<rparr>) (m'\<lparr> mentions := vs' \<rparr>) = repliesEdge X m m'"
  by (simp_all add: messageAddress_def reactionAddress_def messageTimestamp_def messageNode_def
      reactionNode_def authorsMessageEdge_def addsReactionEdge_def reactsToEdge_def
      mentionsEdge_def repliesEdge_def)

lemma reactionStep_mentions_update:
  "reactionStep X weights memberMap (m\<lparr> mentions := vs \<rparr>) = reactionStep X weights memberMap m"
  by (rule ext, rule ext) (simp add: reactionStep_def mentions_update_irrelevant split: option.split)

lemma mentionStep_mentions_update:
  "mentionStep X memberMap (m\<lparr> mentions := vs \<rparr>) = mentionStep X memberMap m"
  by (rule ext, rule ext) (simp add: mentionStep_def mentions_update_irrelevant split: option.split)

lemma replyStep_dropUnknown:
  "replyStep X (dropUnknown rp) ch (m\<lparr> mentions := vs \<rparr>) = replyStep X rp ch m"
  by (rule ext, rule ext)
    (simp add: replyStep_def dropUnknown_def Let_def mentions_update_irrelevant)

lemma dropUnknown_simps:
  "members (dropUnknown rp) = members rp"
  "channels (dropUnknown rp) = channels rp"
  "thread (dropUnknown rp) = thread rp"
  "messages (dropUnknown rp) c =
     map (\<lambda>m. m\<lparr> mentions := filter (\<lambda>u. memberMap_of (members rp) u \<noteq> None) (mentions m) \<rparr>)
       (messages rp c)"
  "reactions (dropUnknown rp) c i =
     filter (\<lambda>r. memberMap_of (members rp) (reactor r) \<noteq> None) (reactions rp c i)"
  by (simp_all add: dropUnknown_def Let_def)

lemma processMessage_dropUnknown:
  "processMessage X (dropUnknown rp) weights (memberMap_of (members rp)) ch
     (m\<lparr> mentions := filter (\<lambda>u. memberMap_of (members rp) u \<noteq> None) (mentions m) \<rparr>) wg =
   processMessage X rp weights (memberMap_of (members rp)) ch m wg"
proof -
  let ?mm = "memberMap_of (members rp)"
  have r: "fold (reactionStep X weights ?mm m)
             (filter (\<lambda>r. ?mm (reactor r) \<noteq> None) rs) st =
           fold (reactionStep X weights ?mm m) rs st" for rs st
    by (rule fold_filter_skip) (simp add: reactionStep_unknown)
  have v: "fold (mentionStep X ?mm m) (filter (\<lambda>u. ?mm u \<noteq> None) vs) st =
           fold (mentionStep X ?mm m) vs st" for vs st
    by (rule fold_filter_skip) (simp add: mentionStep_unknown)
  show ?thesis
    by (simp add: processMessage_def dropUnknown_simps reactionStep_mentions_update
        mentionStep_mentions_update replyStep_dropUnknown mentions_update_irrelevant r v
        Let_def del: not_None_eq split: option.split)
qed

lemma processChannel_dropUnknown:
  "processChannel X (dropUnknown rp) weights (memberMap_of (members rp)) ch wg =
   processChannel X rp weights (memberMap_of (members rp)) ch wg"
proof -
  let ?prune = "\<lambda>m. m\<lparr> mentions :=
    filter (\<lambda>u. memberMap_of (members rp) u \<noteq> None) (mentions m) \<rparr>"
  have "processMessage X (dropUnknown rp) weights (memberMap_of (members rp)) ch \<circ> ?prune =
        processMessage X rp weights (memberMap_of (members rp)) ch"
    by (rule ext, rule ext) (simp only: o_apply processMessage_dropUnknown)
  then show ?thesis
    by (simp only: processChannel_def dropUnknown_simps fold_map)
qed

lemma resolved_reaction_present:
  assumes ch: "ch \<in> set (channels rp)"
    and m: "m \<in> set (messages rp (id_channel ch))"
    and flagged: "hasReactions m \<or> hasMentions m"
    and r: "r \<in> set (reactions rp (channel m) (id_message m))"
    and u: "memberMap_of (members rp) (reactor r) = Some u"
  shows "reactionNode X m (Obj r) \<in> set (nodes (createGraph X token rp weights))
    \<and> memberNode X u \<in> set (nodes (createGraph X token rp weights))
    \<and> reactsToEdge X (Str (reaction_reaction r)) m
        \<in> set (edges (createGraph X token rp weights))
    \<and> addsReactionEdge X (Str (reaction_reaction r)) u m
        \<in> set (edges (createGraph X token rp weights))"
  unfolding createGraph_node_iff createGraph_edge_iff message_node_cases message_edge_cases
  using ch m flagged r u by blast

lemma resolved_mention_present:
  assumes ch: "ch \<in> set (channels rp)"
    and m: "m \<in> set (messages rp (id_channel ch))"
    and flagged: "hasReactions m \<or> hasMentions m"
    and v: "v \<in> set (mentions m)"
    and u: "memberMap_of (members rp) v = Some u"
  shows "memberNode X u \<in> set (nodes (createGraph X token rp weights))
    \<and> mentionsEdge X m u \<in> set (edges (createGraph X token rp weights))"
  unfolding createGraph_node_iff createGraph_edge_iff message_node_cases message_edge_cases
  using ch m flagged v u by blast

lemma known_author_present:
  assumes ch: "ch \<in> set (channels rp)"
    and m: "m \<in> set (messages rp (id_channel ch))"
    and flagged: "hasReactions m \<or> hasMentions m"
    and edges: "(\<exists>r \<in> set (reactions rp (channel m) (id_message m)).
          memberMap_of (members rp) (reactor r) \<noteq> None)
        \<or> (\<exists>v \<in> set (mentions m). memberMap_of (members rp) v \<noteq> None)"
    and a: "memberMap_of (members rp) (authorId m) = Some a"
  shows "memberNode X a \<in> set (nodes (createGraph X token rp weights))
    \<and> messageNode X m (name_channel ch) \<in> set (nodes (createGraph X token rp weights))
    \<and> authorsMessageEdge X m a \<in> set (edges (createGraph X token rp weights))"
  unfolding createGraph_node_iff createGraph_edge_iff message_node_cases message_edge_cases
  using ch m flagged edges a by blast

lemma reaction_node_row:
  "reactionNode X m (Obj r) = reactionNode X m' (Obj r') \<Longrightarrow> r = r'"
proof -
  assume "reactionNode X m (Obj r) = reactionNode X m' (Obj r')"
  then have "node.address (reactionNode X m (Obj r)) = node.address (reactionNode X m' (Obj r'))"
    by simp
  then show "r = r'"
    by (simp add: reactionNode_def reactionAddress_def append_def Let_def)
qed

lemma unresolved_reaction_absent:
  assumes "memberMap_of (members rp) (reactor r) = None"
  shows "reactionNode X m (Obj r) \<notin> set (nodes (createGraph X token rp weights))"
proof
  let ?mm = "memberMap_of (members rp)"
  assume "reactionNode X m (Obj r) \<in> set (nodes (createGraph X token rp weights))"
  then obtain ch m' where
    emitted: "reactionNode X m (Obj r)
      \<in> set (nodes (processMessage X rp weights ?mm ch m' emptyGraph))"
    unfolding createGraph_node_iff by blast
  have not_member: "reactionNode X m (Obj r) \<noteq> memberNode X u" for u
  proof
    assume "reactionNode X m (Obj r) = memberNode X u"
    then have "fst (node.address (reactionNode X m (Obj r)))
        = fst (node.address (memberNode X u))"
      by (rule arg_cong)
    then show False by simp
  qed
  have not_message: "reactionNode X m (Obj r) \<noteq> messageNode X m'' cn" for m'' cn
  proof
    assume "reactionNode X m (Obj r) = messageNode X m'' cn"
    then have "fst (node.address (reactionNode X m (Obj r)))
        = fst (node.address (messageNode X m'' cn))"
      by (rule arg_cong)
    then show False by simp
  qed
  from emitted not_member not_message
  obtain q u where "?mm (reactor q) = Some u"
    and "reactionNode X m (Obj r) = reactionNode X m' (Obj q)"
    unfolding message_node_cases by blast
  with reaction_node_row [of X m r m' q] assms show False by simp
qed

text \<open>
  Claim C5. A reaction whose reactor is not in the member map leaves the graph and the
  flag as they were, and so does a mention of a user who is not in the member map; the
  loops go on with the next element, and no Reaction node is built from such a
  reaction. Everything else is there: whatever unresolved references a flagged message
  of a channel carries, the output holds the nodes and edges of each of its resolved
  reactions and mentions, its thread nodes and edges if it starts a thread, and its
  author's node, its own node and the AuthorsMessage edge if something resolved and the
  author is known. Nothing else changes either: the graph built from a snapshot equals,
  in nodes, edges and weights, the graph built from the same snapshot without its
  unresolvable reactions and mentions. The builder is a total function; it has no
  failing branch.
\<close>

theorem C5_unknown_references_dropped:
  "(memberMap (reactor r) = None \<longrightarrow> reactionStep X weights memberMap message r st = st)
   \<and> (memberMap v = None \<longrightarrow> mentionStep X memberMap message v st = st)
   \<and> createGraph X token (dropUnknown rp) weights = createGraph X token rp weights
   \<and> (memberMap_of (members rp) (reactor r') = None \<longrightarrow>
        reactionNode X m' (Obj r') \<notin> set (nodes (createGraph X token rp weights)))
   \<and> (ch \<in> set (channels rp) \<and> m \<in> set (messages rp (id_channel ch))
        \<and> (hasReactions m \<or> hasMentions m) \<longrightarrow>
        (\<forall>q \<in> set (reactions rp (channel m) (id_message m)).
           \<forall>u. memberMap_of (members rp) (reactor q) = Some u \<longrightarrow>
             reactionNode X m (Obj q) \<in> set (nodes (createGraph X token rp weights))
             \<and> memberNode X u \<in> set (nodes (createGraph X token rp weights))
             \<and> reactsToEdge X (Str (reaction_reaction q)) m
                 \<in> set (edges (createGraph X token rp weights))
             \<and> addsReactionEdge X (Str (reaction_reaction q)) u m
                 \<in> set (edges (createGraph X token rp weights)))
        \<and> (\<forall>w \<in> set (mentions m).
             \<forall>u. memberMap_of (members rp) w = Some u \<longrightarrow>
               memberNode X u \<in> set (nodes (createGraph X token rp weights))
               \<and> mentionsEdge X m u \<in> set (edges (createGraph X token rp weights)))
        \<and> (isThread m \<and> inReplyTo m = id_message m \<longrightarrow>
             messageNode X m (name_channel ch) \<in> set (nodes (createGraph X token rp weights))
             \<and> (\<forall>i \<in> set (thread rp (id_message m)).
                  messageNode X (message_by_id rp i) (name_channel ch)
                    \<in> set (nodes (createGraph X token rp weights))
                  \<and> repliesEdge X m (message_by_id rp i)
                    \<in> set (edges (createGraph X token rp weights))))
        \<and> (((\<exists>q \<in> set (reactions rp (channel m) (id_message m)).
                 memberMap_of (members rp) (reactor q) \<noteq> None)
              \<or> (\<exists>w \<in> set (mentions m). memberMap_of (members rp) w \<noteq> None)) \<longrightarrow>
             (\<forall>a. memberMap_of (members rp) (authorId m) = Some a \<longrightarrow>
                memberNode X a \<in> set (nodes (createGraph X token rp weights))
                \<and> messageNode X m (name_channel ch)
                    \<in> set (nodes (createGraph X token rp weights))
                \<and> authorsMessageEdge X m a \<in> set (edges (createGraph X token rp weights)))))"
  (is "?reaction \<and> ?mention \<and> ?same \<and> ?absent \<and> ?present")
proof -
  have 1: ?reaction by (simp add: reactionStep_unknown)
  have 2: ?mention by (simp add: mentionStep_unknown)
  have "processChannel X (dropUnknown rp) weights (memberMap_of (members rp)) =
        processChannel X rp weights (memberMap_of (members rp))"
    by (rule ext, rule ext) (rule processChannel_dropUnknown)
  then have 3: ?same
    by (simp add: createGraph_def dropUnknown_simps)
  have 4: ?absent
    using unresolved_reaction_absent [where rp = rp and r = r' and X = X and m = m'
        and token = token and weights = weights]
    by blast
  have 5: ?present
  proof (intro impI, elim conjE)
    assume ch: "ch \<in> set (channels rp)" and m: "m \<in> set (messages rp (id_channel ch))"
      and flagged: "hasReactions m \<or> hasMentions m"
    have a: "\<forall>q \<in> set (reactions rp (channel m) (id_message m)).
           \<forall>u. memberMap_of (members rp) (reactor q) = Some u \<longrightarrow>
             reactionNode X m (Obj q) \<in> set (nodes (createGraph X token rp weights))
             \<and> memberNode X u \<in> set (nodes (createGraph X token rp weights))
             \<and> reactsToEdge X (Str (reaction_reaction q)) m
                 \<in> set (edges (createGraph X token rp weights))
             \<and> addsReactionEdge X (Str (reaction_reaction q)) u m
                 \<in> set (edges (createGraph X token rp weights))"
      using resolved_reaction_present [OF ch m flagged, where X = X and token = token
          and weights = weights]
      by blast
    have b: "\<forall>w \<in> set (mentions m).
             \<forall>u. memberMap_of (members rp) w = Some u \<longrightarrow>
               memberNode X u \<in> set (nodes (createGraph X token rp weights))
               \<and> mentionsEdge X m u \<in> set (edges (createGraph X token rp weights))"
      using resolved_mention_present [OF ch m flagged, where X = X and token = token
          and weights = weights]
      by blast
    have c: "isThread m \<and> inReplyTo m = id_message m \<longrightarrow>
             messageNode X m (name_channel ch) \<in> set (nodes (createGraph X token rp weights))
             \<and> (\<forall>i \<in> set (thread rp (id_message m)).
                  messageNode X (message_by_id rp i) (name_channel ch)
                    \<in> set (nodes (createGraph X token rp weights))
                  \<and> repliesEdge X m (message_by_id rp i)
                    \<in> set (edges (createGraph X token rp weights)))"
      using thread_starter_present [OF ch m flagged, where X = X and token = token
          and weights = weights]
      by blast
    have d: "((\<exists>q \<in> set (reactions rp (channel m) (id_message m)).
                 memberMap_of (members rp) (reactor q) \<noteq> None)
              \<or> (\<exists>w \<in> set (mentions m). memberMap_of (members rp) w \<noteq> None)) \<longrightarrow>
             (\<forall>a. memberMap_of (members rp) (authorId m) = Some a \<longrightarrow>
                memberNode X a \<in> set (nodes (createGraph X token rp weights))
                \<and> messageNode X m (name_channel ch)
                    \<in> set (nodes (createGraph X token rp weights))
                \<and> authorsMessageEdge X m a \<in> set (edges (createGraph X token rp weights)))"
      using known_author_present [OF ch m flagged, where X = X and token = token
          and weights = weights]
      by blast
    from a b c d show "(\<forall>q \<in> set (reactions rp (channel m) (id_message m)).
           \<forall>u. memberMap_of (members rp) (reactor q) = Some u \<longrightarrow>
             reactionNode X m (Obj q) \<in> set (nodes (createGraph X token rp weights))
             \<and> memberNode X u \<in> set (nodes (createGraph X token rp weights))
             \<and> reactsToEdge X (Str (reaction_reaction q)) m
                 \<in> set (edges (createGraph X token rp weights))
             \<and> addsReactionEdge X (Str (reaction_reaction q)) u m
                 \<in> set (edges (createGraph X token rp weights)))
        \<and> (\<forall>w \<in> set (mentions m).
             \<forall>u. memberMap_of (members rp) w = Some u \<longrightarrow>
               memberNode X u \<in> set (nodes (createGraph X token rp weights))
               \<and> mentionsEdge X m u \<in> set (edges (createGraph X token rp weights)))
        \<and> (isThread m \<and> inReplyTo m = id_message m \<longrightarrow>
             messageNode X m (name_channel ch) \<in> set (nodes (createGraph X token rp weights))
             \<and> (\<forall>i \<in> set (thread rp (id_message m)).
                  messageNode X (message_by_id rp i) (name_channel ch)
                    \<in> set (nodes (createGraph X token rp weights))
                  \<and> repliesEdge X m (message_by_id rp i)
                    \<in> set (edges (createGraph X token rp weights))))
        \<and> (((\<exists>q \<in> set (reactions rp (channel m) (id_message m)).
                 memberMap_of (members rp) (reactor q) \<noteq> None)
              \<or> (\<exists>w \<in> set (mentions m). memberMap_of (members rp) w \<noteq> None)) \<longrightarrow>
             (\<forall>a. memberMap_of (members rp) (authorId m) = Some a \<longrightarrow>
                memberNode X a \<in> set (nodes (createGraph X token rp weights))
                \<and> messageNode X m (name_channel ch)
                    \<in> set (nodes (createGraph X token rp weights))
                \<and> authorsMessageEdge X m a \<in> set (edges (createGraph X token rp weights))))"
      by blast
  qed
  from 1 2 3 4 5 show ?thesis by blast
qed

theorem C5_unknown_references_dropped_witness:
  "memberMap_of [alice, bob] (reactor (thumbsup ''Z'')) = None
   \<and> memberMap_of [alice, bob] ''Y'' = None
   \<and> reactionStep env0 () (memberMap_of [alice, bob]) busy (thumbsup ''Z'') (emptyGraph, False)
       = (emptyGraph, False)
   \<and> mentionStep env0 (memberMap_of [alice, bob]) busy ''Y'' (emptyGraph, False)
       = (emptyGraph, False)
   \<and> reactions (dropUnknown (workspace [busy] [thumbsup ''Z'', thumbsup ''B''])) ''C1'' ''1''
       = [thumbsup ''B'']
   \<and> map mentions (messages (dropUnknown (workspace [busy] [thumbsup ''Z'', thumbsup ''B''])) ''C1'')
       = [[''A'']]
   \<and> createGraph env0 [] (dropUnknown (workspace [busy] [thumbsup ''Z'', thumbsup ''B''])) ()
       = createGraph env0 [] (workspace [busy] [thumbsup ''Z'', thumbsup ''B'']) ()
   \<and> reactionNode env0 busy (Obj (thumbsup ''Z''))
       \<notin> set (nodes (createGraph env0 [] (workspace [busy] [thumbsup ''Z'', thumbsup ''B'']) ()))
   \<and> general \<in> set (channels (workspace [busy] [thumbsup ''Z'', thumbsup ''B'']))
   \<and> busy \<in> set (messages (workspace [busy] [thumbsup ''Z'', thumbsup ''B'']) (id_channel general))
   \<and> hasReactions busy
   \<and> reactions (workspace [busy] [thumbsup ''Z'', thumbsup ''B'']) (channel busy) (id_message busy)
       = [thumbsup ''Z'', thumbsup ''B'']
   \<and> memberMap_of (members (workspace [busy] [thumbsup ''Z'', thumbsup ''B'']))
         (reactor (thumbsup ''B'')) = Some bob
   \<and> mentions busy = [''A'', ''Y'']
   \<and> memberMap_of (members (workspace [busy] [thumbsup ''Z'', thumbsup ''B''])) ''A'' = Some alice
   \<and> memberMap_of (members (workspace [busy] [thumbsup ''Z'', thumbsup ''B'']))
         (authorId busy) = Some alice
   \<and> reactionNode env0 busy (Obj (thumbsup ''B''))
       \<in> set (nodes (createGraph env0 [] (workspace [busy] [thumbsup ''Z'', thumbsup ''B'']) ()))
   \<and> memberNode env0 bob
       \<in> set (nodes (createGraph env0 [] (workspace [busy] [thumbsup ''Z'', thumbsup ''B'']) ()))
   \<and> reactsToEdge env0 (Str ''thumbsup'') busy
       \<in> set (edges (createGraph env0 [] (workspace [busy] [thumbsup ''Z'', thumbsup ''B'']) ()))
   \<and> addsReactionEdge env0 (Str ''thumbsup'') bob busy
       \<in> set (edges (createGraph env0 [] (workspace [busy] [thumbsup ''Z'', thumbsup ''B'']) ()))
   \<and> memberNode env0 alice
       \<in> set (nodes (createGraph env0 [] (workspace [busy] [thumbsup ''Z'', thumbsup ''B'']) ()))
   \<and> mentionsEdge env0 busy alice
       \<in> set (edges (createGraph env0 [] (workspace [busy] [thumbsup ''Z'', thumbsup ''B'']) ()))
   \<and> messageNode env0 busy ''general''
       \<in> set (nodes (createGraph env0 [] (workspace [busy] [thumbsup ''Z'', thumbsup ''B'']) ()))
   \<and> authorsMessageEdge env0 busy alice
       \<in> set (edges (createGraph env0 [] (workspace [busy] [thumbsup ''Z'', thumbsup ''B'']) ()))"
  (is "?h1 \<and> ?h2 \<and> ?c1 \<and> ?c2 \<and> ?d1 \<and> ?d2 \<and> ?c3 \<and> ?c4 \<and> ?a1 \<and> ?a2 \<and> ?a3 \<and> ?a4 \<and> ?a5
        \<and> ?a6 \<and> ?a7 \<and> ?a8 \<and> ?p1 \<and> ?p2 \<and> ?p3 \<and> ?p4 \<and> ?p5 \<and> ?p6 \<and> ?p7 \<and> ?p8")
proof -
  let ?W = "workspace [busy] [thumbsup ''Z'', thumbsup ''B'']"
  have h1: ?h1 by (simp add: memberMap_of_def alice_def bob_def thumbsup_def)
  have h2: ?h2 by (simp add: memberMap_of_def alice_def bob_def)
  have d1: ?d1
    by (simp add: dropUnknown_def workspace_def memberMap_of_def alice_def bob_def thumbsup_def
        Let_def)
  have d2: ?d2
    by (simp add: dropUnknown_def workspace_def memberMap_of_def alice_def bob_def busy_def
        m1_def Let_def)
  have a1: ?a1 by (simp add: workspace_def)
  have a2: ?a2 by (simp add: workspace_def general_def)
  have a3: ?a3 by (simp add: busy_def)
  have a4: ?a4 by (simp add: workspace_def busy_def m1_def)
  have a5: ?a5 by (simp add: workspace_def memberMap_of_def alice_def bob_def thumbsup_def)
  have a6: ?a6 by (simp add: busy_def)
  have a7: ?a7 by (simp add: workspace_def memberMap_of_def alice_def bob_def)
  have a8: ?a8 by (simp add: workspace_def memberMap_of_def alice_def bob_def busy_def m1_def)
  have z: "memberMap_of (members ?W) (reactor (thumbsup ''Z'')) = None"
    by (simp add: workspace_def memberMap_of_def alice_def bob_def thumbsup_def)
  have name: "reaction_reaction (thumbsup ''B'') = ''thumbsup''"
    "name_channel general = ''general''"
    by (simp_all add: thumbsup_def general_def)
  have known: "(\<exists>q \<in> set (reactions ?W (channel busy) (id_message busy)).
        memberMap_of (members ?W) (reactor q) \<noteq> None)
      \<or> (\<exists>w \<in> set (mentions busy). memberMap_of (members ?W) w \<noteq> None)"
    using a4 a5 by auto
  have b_in: "thumbsup ''B'' \<in> set (reactions ?W (channel busy) (id_message busy))"
    using a4 by simp
  have a_in: "''A'' \<in> set (mentions busy)" using a6 by simp
  note inst = C5_unknown_references_dropped [where memberMap = "memberMap_of [alice, bob]"
      and r = "thumbsup ''Z''" and v = "''Y''" and X = env0 and weights = "()"
      and message = busy and st = "(emptyGraph, False)" and token = "[]"
      and rp = "?W" and r' = "thumbsup ''Z''" and m' = busy and ch = general and m = busy]
  have steps: "?c1 \<and> ?c2 \<and> ?c3 \<and> ?c4" using inst h1 h2 z by blast
  have present: "?p1 \<and> ?p2 \<and> ?p3 \<and> ?p4 \<and> ?p5 \<and> ?p6 \<and> ?p7 \<and> ?p8"
    using inst a1 a2 a3 b_in a5 a_in a7 a8 known name
    by (metis (no_types, lifting))
  from h1 h2 steps d1 d2 a1 a2 a3 a4 a5 a6 a7 a8 present show ?thesis by blast
qed

section \<open>Authorship\<close>

lemma unknown_author_emits:
  assumes a: "memberMap (authorId m) = None"
  shows "e \<in> set (edges (processMessage X rp weights memberMap ch m emptyGraph)) \<Longrightarrow>
       fst (edge.address e) \<noteq> AuthorsMessageNS"
    and "n \<in> set (nodes (processMessage X rp weights memberMap ch m emptyGraph)) \<Longrightarrow>
       \<not> (isThread m \<and> inReplyTo m = id_message m) \<Longrightarrow> fst (node.address n) \<noteq> MessageNS"
    and "n \<in> set (nodes (processMessage X rp weights memberMap ch m emptyGraph)) \<Longrightarrow>
       fst (node.address n) = MemberNS \<Longrightarrow>
       (\<exists>r \<in> set (reactions rp (channel m) (id_message m)).
          \<exists>u. memberMap (reactor r) = Some u \<and> n = memberNode X u)
       \<or> (\<exists>v \<in> set (mentions m). \<exists>u. memberMap v = Some u \<and> n = memberNode X u)"
proof -
  show "e \<in> set (edges (processMessage X rp weights memberMap ch m emptyGraph)) \<Longrightarrow>
       fst (edge.address e) \<noteq> AuthorsMessageNS"
    unfolding message_edge_cases using a by auto
  show "n \<in> set (nodes (processMessage X rp weights memberMap ch m emptyGraph)) \<Longrightarrow>
       \<not> (isThread m \<and> inReplyTo m = id_message m) \<Longrightarrow> fst (node.address n) \<noteq> MessageNS"
    unfolding message_node_cases using a by auto
  show "n \<in> set (nodes (processMessage X rp weights memberMap ch m emptyGraph)) \<Longrightarrow>
       fst (node.address n) = MemberNS \<Longrightarrow>
       (\<exists>r \<in> set (reactions rp (channel m) (id_message m)).
          \<exists>u. memberMap (reactor r) = Some u \<and> n = memberNode X u)
       \<or> (\<exists>v \<in> set (mentions m). \<exists>u. memberMap v = Some u \<and> n = memberNode X u)"
    unfolding message_node_cases using a by auto
qed

text \<open>
  Claim C6, as the spec states it, fails for thread starters: the thread step comes
  before the authorship step and adds the starter's Message node whatever the author.
  Below, the starter has a reaction by the known member \<^verbatim>\<open>B\<close> and the unknown author
  \<^verbatim>\<open>Z\<close>; its ReactsTo edge is in the graph and so is its Message node.
\<close>

theorem C6_thread_starter_counterexample:
  "general \<in> set (channels (workspace [starter\<lparr> hasReactions := True, authorId := ''Z'' \<rparr>]
       [thumbsup ''B'']))
   \<and> starter\<lparr> hasReactions := True, authorId := ''Z'' \<rparr>
       \<in> set (messages (workspace [starter\<lparr> hasReactions := True, authorId := ''Z'' \<rparr>]
           [thumbsup ''B'']) (id_channel general))
   \<and> thumbsup ''B''
       \<in> set (reactions (workspace [starter\<lparr> hasReactions := True, authorId := ''Z'' \<rparr>]
           [thumbsup ''B''])
           (channel (starter\<lparr> hasReactions := True, authorId := ''Z'' \<rparr>))
           (id_message (starter\<lparr> hasReactions := True, authorId := ''Z'' \<rparr>)))
   \<and> memberMap_of (members (workspace [starter\<lparr> hasReactions := True, authorId := ''Z'' \<rparr>]
         [thumbsup ''B''])) (reactor (thumbsup ''B'')) = Some bob
   \<and> memberMap_of (members (workspace [starter\<lparr> hasReactions := True, authorId := ''Z'' \<rparr>]
         [thumbsup ''B'']))
       (authorId (starter\<lparr> hasReactions := True, authorId := ''Z'' \<rparr>)) = None
   \<and> reactsToEdge env0 (Str ''thumbsup'') (starter\<lparr> hasReactions := True, authorId := ''Z'' \<rparr>)
       \<in> set (edges (createGraph env0 []
           (workspace [starter\<lparr> hasReactions := True, authorId := ''Z'' \<rparr>] [thumbsup ''B''])
           ()))
   \<and> messageNode env0 (starter\<lparr> hasReactions := True, authorId := ''Z'' \<rparr>)
         (name_channel general)
       \<in> set (nodes (createGraph env0 []
           (workspace [starter\<lparr> hasReactions := True, authorId := ''Z'' \<rparr>] [thumbsup ''B''])
           ()))"
  by (simp add: workspace_def env0_def alice_def bob_def general_def m1_def m2_def starter_def
      thumbsup_def builder_defs)

text \<open>
  Claim C6, amended. For a flagged message of a channel, the nodes and edges of every
  resolved reaction and of every resolved mention are in the output, whoever the author
  is. When at least one of them resolved and the author is known, the author's Member
  node, the Message node and the AuthorsMessage edge are in the output. When the author
  is unknown, handling the message emits no AuthorsMessage edge, no Member node but
  those of resolved reactors and mentioned members, and a Message node only if the
  message is a thread starter (from the thread step).
\<close>

theorem C6_authorship_step:
  assumes ch: "ch \<in> set (channels rp)"
    and m: "m \<in> set (messages rp (id_channel ch))"
    and flagged: "hasReactions m \<or> hasMentions m"
  shows "(\<forall>r \<in> set (reactions rp (channel m) (id_message m)).
           \<forall>u. memberMap_of (members rp) (reactor r) = Some u \<longrightarrow>
             reactionNode X m (Obj r) \<in> set (nodes (createGraph X token rp weights))
             \<and> memberNode X u \<in> set (nodes (createGraph X token rp weights))
             \<and> reactsToEdge X (Str (reaction_reaction r)) m
                 \<in> set (edges (createGraph X token rp weights))
             \<and> addsReactionEdge X (Str (reaction_reaction r)) u m
                 \<in> set (edges (createGraph X token rp weights)))
    \<and> (\<forall>v \<in> set (mentions m).
           \<forall>u. memberMap_of (members rp) v = Some u \<longrightarrow>
             memberNode X u \<in> set (nodes (createGraph X token rp weights))
             \<and> mentionsEdge X m u \<in> set (edges (createGraph X token rp weights)))
    \<and> (((\<exists>r \<in> set (reactions rp (channel m) (id_message m)).
             memberMap_of (members rp) (reactor r) \<noteq> None)
          \<or> (\<exists>v \<in> set (mentions m). memberMap_of (members rp) v \<noteq> None)) \<longrightarrow>
        (\<forall>a. memberMap_of (members rp) (authorId m) = Some a \<longrightarrow>
           memberNode X a \<in> set (nodes (createGraph X token rp weights))
           \<and> messageNode X m (name_channel ch) \<in> set (nodes (createGraph X token rp weights))
           \<and> authorsMessageEdge X m a \<in> set (edges (createGraph X token rp weights))))
    \<and> (memberMap_of (members rp) (authorId m) = None \<longrightarrow>
        (\<forall>e \<in> set (edges (processMessage X rp weights (memberMap_of (members rp)) ch m
                 emptyGraph)).
           fst (edge.address e) \<noteq> AuthorsMessageNS)
        \<and> (\<forall>n \<in> set (nodes (processMessage X rp weights (memberMap_of (members rp)) ch m
                   emptyGraph)).
             (fst (node.address n) = MessageNS \<longrightarrow> isThread m \<and> inReplyTo m = id_message m)
             \<and> (fst (node.address n) = MemberNS \<longrightarrow>
                  (\<exists>r \<in> set (reactions rp (channel m) (id_message m)).
                     \<exists>u. memberMap_of (members rp) (reactor r) = Some u \<and> n = memberNode X u)
                  \<or> (\<exists>v \<in> set (mentions m).
                       \<exists>u. memberMap_of (members rp) v = Some u \<and> n = memberNode X u))))"
  (is "?reactions \<and> ?mentions \<and> ?known \<and> ?unknown")
proof -
  have 1: ?reactions
    using resolved_reaction_present [OF ch m flagged, where X = X and token = token and weights = weights]
    by blast
  have 2: ?mentions
    using resolved_mention_present [OF ch m flagged, where X = X and token = token and weights = weights]
    by blast
  have 3: ?known
    using known_author_present [OF ch m flagged, where X = X and token = token and weights = weights]
    by blast
  have 4: ?unknown
    using unknown_author_emits [where memberMap = "memberMap_of (members rp)" and m = m
        and X = X and rp = rp and weights = weights and ch = ch]
    by blast
  from 1 2 3 4 show ?thesis by blast
qed

theorem C6_authorship_step_witness:
  "general \<in> set (channels (workspace [busy] [thumbsup ''B'', thumbsup ''Z'']))
   \<and> busy \<in> set (messages (workspace [busy] [thumbsup ''B'', thumbsup ''Z'']) (id_channel general))
   \<and> hasReactions busy
   \<and> thumbsup ''B'' \<in> set (reactions (workspace [busy] [thumbsup ''B'', thumbsup ''Z''])
         (channel busy) (id_message busy))
   \<and> memberMap_of (members (workspace [busy] [thumbsup ''B'', thumbsup ''Z'']))
         (reactor (thumbsup ''B'')) = Some bob
   \<and> ''A'' \<in> set (mentions busy)
   \<and> memberMap_of (members (workspace [busy] [thumbsup ''B'', thumbsup ''Z''])) ''A'' = Some alice
   \<and> memberMap_of (members (workspace [busy] [thumbsup ''B'', thumbsup ''Z'']))
         (authorId busy) = Some alice
   \<and> reactionNode env0 busy (Obj (thumbsup ''B''))
       \<in> set (nodes (createGraph env0 [] (workspace [busy] [thumbsup ''B'', thumbsup ''Z'']) ()))
   \<and> memberNode env0 bob
       \<in> set (nodes (createGraph env0 [] (workspace [busy] [thumbsup ''B'', thumbsup ''Z'']) ()))
   \<and> reactsToEdge env0 (Str ''thumbsup'') busy
       \<in> set (edges (createGraph env0 [] (workspace [busy] [thumbsup ''B'', thumbsup ''Z'']) ()))
   \<and> addsReactionEdge env0 (Str ''thumbsup'') bob busy
       \<in> set (edges (createGraph env0 [] (workspace [busy] [thumbsup ''B'', thumbsup ''Z'']) ()))
   \<and> mentionsEdge env0 busy alice
       \<in> set (edges (createGraph env0 [] (workspace [busy] [thumbsup ''B'', thumbsup ''Z'']) ()))
   \<and> memberNode env0 alice
       \<in> set (nodes (createGraph env0 [] (workspace [busy] [thumbsup ''B'', thumbsup ''Z'']) ()))
   \<and> messageNode env0 busy ''general''
       \<in> set (nodes (createGraph env0 [] (workspace [busy] [thumbsup ''B'', thumbsup ''Z'']) ()))
   \<and> authorsMessageEdge env0 busy alice
       \<in> set (edges (createGraph env0 [] (workspace [busy] [thumbsup ''B'', thumbsup ''Z'']) ()))
   \<and> general \<in> set (channels (workspace [orphan] [thumbsup ''B'']))
   \<and> orphan \<in> set (messages (workspace [orphan] [thumbsup ''B'']) (id_channel general))
   \<and> hasReactions orphan
   \<and> memberMap_of (members (workspace [orphan] [thumbsup ''B''])) (authorId orphan) = None
   \<and> reactionNode env0 orphan (Obj (thumbsup ''B''))
       \<in> set (nodes (createGraph env0 [] (workspace [orphan] [thumbsup ''B'']) ()))
   \<and> mentionsEdge env0 orphan alice
       \<in> set (edges (createGraph env0 [] (workspace [orphan] [thumbsup ''B'']) ()))
   \<and> AuthorsMessageNS \<notin> (\<lambda>e. fst (edge.address e)) `
         set (edges (processMessage env0 (workspace [orphan] [thumbsup ''B'']) ()
           (memberMap_of (members (workspace [orphan] [thumbsup ''B'']))) general orphan
           emptyGraph))
   \<and> MessageNS \<notin> (\<lambda>n. fst (node.address n)) `
         set (nodes (processMessage env0 (workspace [orphan] [thumbsup ''B'']) ()
           (memberMap_of (members (workspace [orphan] [thumbsup ''B'']))) general orphan
           emptyGraph))"
  (is "?a1 \<and> ?a2 \<and> ?a3 \<and> ?a4 \<and> ?a5 \<and> ?a6 \<and> ?a7 \<and> ?a8 \<and> ?c1 \<and> ?c2 \<and> ?c3 \<and> ?c4 \<and> ?c5
        \<and> ?c6 \<and> ?c7 \<and> ?c8 \<and> ?b1 \<and> ?b2 \<and> ?b3 \<and> ?b4 \<and> ?d1 \<and> ?d2 \<and> ?d3 \<and> ?d4")
proof -
  let ?W = "workspace [busy] [thumbsup ''B'', thumbsup ''Z'']"
  let ?V = "workspace [orphan] [thumbsup ''B'']"
  have a1: ?a1 by (simp add: workspace_def)
  have a2: ?a2 by (simp add: workspace_def general_def)
  have a3: ?a3 by (simp add: busy_def)
  have a4: ?a4 by (simp add: workspace_def busy_def m1_def)
  have a5: ?a5 by (simp add: workspace_def memberMap_of_def alice_def bob_def thumbsup_def)
  have a6: ?a6 by (simp add: busy_def)
  have a7: ?a7 by (simp add: workspace_def memberMap_of_def alice_def bob_def)
  have a8: ?a8 by (simp add: workspace_def memberMap_of_def alice_def bob_def busy_def m1_def)
  have b1: ?b1 by (simp add: workspace_def)
  have b2: ?b2 by (simp add: workspace_def general_def)
  have b3: ?b3 by (simp add: orphan_def busy_def)
  have b4: ?b4
    by (simp add: workspace_def memberMap_of_def alice_def bob_def orphan_def)
  have b5: "thumbsup ''B'' \<in> set (reactions ?V (channel orphan) (id_message orphan))"
    by (simp add: workspace_def orphan_def busy_def m1_def)
  have b6: "memberMap_of (members ?V) (reactor (thumbsup ''B'')) = Some bob"
    by (simp add: workspace_def memberMap_of_def alice_def bob_def thumbsup_def)
  have b7: "''A'' \<in> set (mentions orphan)" by (simp add: orphan_def busy_def)
  have b8: "memberMap_of (members ?V) ''A'' = Some alice"
    by (simp add: workspace_def memberMap_of_def alice_def bob_def)
  have b9: "\<not> (isThread orphan \<and> inReplyTo orphan = id_message orphan)"
    by (simp add: orphan_def busy_def m1_def)
  have name: "reaction_reaction (thumbsup ''B'') = ''thumbsup''"
    "name_channel general = ''general''"
    by (simp_all add: thumbsup_def general_def)
  have known: "(\<exists>r \<in> set (reactions ?W (channel busy) (id_message busy)).
        memberMap_of (members ?W) (reactor r) \<noteq> None)
      \<or> (\<exists>v \<in> set (mentions busy). memberMap_of (members ?W) v \<noteq> None)"
    using a4 a5 by auto
  have W: "?c1 \<and> ?c2 \<and> ?c3 \<and> ?c4 \<and> ?c5 \<and> ?c6 \<and> ?c7 \<and> ?c8"
    using C6_authorship_step [OF a1 a2 disjI1 [OF a3], where X = env0 and token = "[]"
        and weights = "()"] a4 a5 a6 a7 a8 known name
    by (metis (no_types, lifting))
  have V: "?d1 \<and> ?d2 \<and> ?d3 \<and> ?d4"
    using C6_authorship_step [OF b1 b2 disjI1 [OF b3], where X = env0 and token = "[]"
        and weights = "()"] b4 b5 b6 b7 b8 b9 name
    by (auto simp add: image_iff)
  from a1 a2 a3 a4 a5 a6 a7 a8 W b1 b2 b3 b4 V show ?thesis by blast
qed

section \<open>Timestamps, descriptions and addresses\<close>

lemma timestamp_simps:
  "node.timestampMs (memberNode X u) = None"
  "node.timestampMs (messageNode X m cn) = Some (times1000 X (parseFloat X (id_message m)))"
  "node.timestampMs (reactionNode X m r) = Some (times1000 X (parseFloat X (id_message m)))"
  "edge.timestampMs (authorsMessageEdge X m u) =
     Some (times1000 X (parseFloat X (id_message m)))"
  "edge.timestampMs (addsReactionEdge X r u m) =
     Some (times1000 X (parseFloat X (id_message m)))"
  "edge.timestampMs (reactsToEdge X r m) = Some (times1000 X (parseFloat X (id_message m)))"
  "edge.timestampMs (mentionsEdge X m u) = Some (times1000 X (parseFloat X (id_message m)))"
  "edge.timestampMs (repliesEdge X m reply) =
     Some (times1000 X (parseFloat X (id_message m)))"
  by (simp_all add: memberNode_def messageNode_def reactionNode_def authorsMessageEdge_def
      addsReactionEdge_def reactsToEdge_def mentionsEdge_def repliesEdge_def
      messageTimestamp_def Let_def)

lemma emitted_edge_timestamp:
  assumes "e \<in> set (edges (processMessage X rp weights memberMap ch m emptyGraph))"
  shows "edge.timestampMs e = Some (times1000 X (parseFloat X (id_message m)))"
  using assms unfolding message_edge_cases by (auto simp add: timestamp_simps)

lemma emitted_node_timestamp:
  assumes "n \<in> set (nodes (processMessage X rp weights memberMap ch m emptyGraph))"
  shows "(fst (node.address n) = MemberNS \<and> node.timestampMs n = None)
    \<or> (fst (node.address n) = ReactionNS
        \<and> node.timestampMs n = Some (times1000 X (parseFloat X (id_message m))))
    \<or> (fst (node.address n) = MessageNS
        \<and> (node.timestampMs n = Some (times1000 X (parseFloat X (id_message m)))
            \<or> (\<exists>i \<in> set (thread rp (id_message m)).
                 node.timestampMs n =
                   Some (times1000 X (parseFloat X (id_message (message_by_id rp i)))))))"
  using assms unfolding message_node_cases by (auto simp add: timestamp_simps)

text \<open>
  Claim C7: the Message node and the Reaction node of a message \<open>m\<close>, and each of the five
  edges built from \<open>m\<close>, carry the timestamp \<^verbatim>\<open>parseFloat(m.id) * 1000\<close>; a RepliesTo
  edge carries the starter's. Every edge a message emits in the builder has that
  message's timestamp, and every node it emits is a Member node or has the timestamp of
  the message or of one of its replies. Nothing checks the id: when \<^verbatim>\<open>parseFloat\<close> yields
  a value \<open>nan\<close> that the multiplication keeps, that value is the timestamp of all seven
  records, and no error is raised.
\<close>

theorem C7_message_timestamps:
  "node.timestampMs (messageNode X m cn) = Some (times1000 X (parseFloat X (id_message m)))
   \<and> node.timestampMs (reactionNode X m r) = Some (times1000 X (parseFloat X (id_message m)))
   \<and> edge.timestampMs (authorsMessageEdge X m u) =
       Some (times1000 X (parseFloat X (id_message m)))
   \<and> edge.timestampMs (addsReactionEdge X r u m) =
       Some (times1000 X (parseFloat X (id_message m)))
   \<and> edge.timestampMs (reactsToEdge X r m) = Some (times1000 X (parseFloat X (id_message m)))
   \<and> edge.timestampMs (mentionsEdge X m u) = Some (times1000 X (parseFloat X (id_message m)))
   \<and> edge.timestampMs (repliesEdge X m reply) =
       Some (times1000 X (parseFloat X (id_message m)))
   \<and> (\<forall>e \<in> set (edges (processMessage X rp weights memberMap ch m emptyGraph)).
         edge.timestampMs e = Some (times1000 X (parseFloat X (id_message m))))
   \<and> (\<forall>n \<in> set (nodes (processMessage X rp weights memberMap ch m emptyGraph)).
         fst (node.address n) = MemberNS
         \<or> node.timestampMs n = Some (times1000 X (parseFloat X (id_message m)))
         \<or> (\<exists>i \<in> set (thread rp (id_message m)).
              node.timestampMs n =
                Some (times1000 X (parseFloat X (id_message (message_by_id rp i))))))
   \<and> (parseFloat X (id_message m) = nan \<and> times1000 X nan = nan \<longrightarrow>
        node.timestampMs (messageNode X m cn) = Some nan
        \<and> node.timestampMs (reactionNode X m r) = Some nan
        \<and> edge.timestampMs (authorsMessageEdge X m u) = Some nan
        \<and> edge.timestampMs (addsReactionEdge X r u m) = Some nan
        \<and> edge.timestampMs (reactsToEdge X r m) = Some nan
        \<and> edge.timestampMs (mentionsEdge X m u) = Some nan
        \<and> edge.timestampMs (repliesEdge X m reply) = Some nan)"
proof -
  have edges: "\<forall>e \<in> set (edges (processMessage X rp weights memberMap ch m emptyGraph)).
      edge.timestampMs e = Some (times1000 X (parseFloat X (id_message m)))"
    using emitted_edge_timestamp [where X = X and rp = rp and weights = weights
        and memberMap = memberMap and ch = ch and m = m]
    by blast
  have nodes: "\<forall>n \<in> set (nodes (processMessage X rp weights memberMap ch m emptyGraph)).
      fst (node.address n) = MemberNS
      \<or> node.timestampMs n = Some (times1000 X (parseFloat X (id_message m)))
      \<or> (\<exists>i \<in> set (thread rp (id_message m)).
           node.timestampMs n =
             Some (times1000 X (parseFloat X (id_message (message_by_id rp i)))))"
    using emitted_node_timestamp [where X = X and rp = rp and weights = weights
        and memberMap = memberMap and ch = ch and m = m]
    by blast
  show ?thesis
    using edges nodes by (simp add: timestamp_simps)
qed

theorem C7_message_timestamps_witness:
  "parseFloat env0 (id_message (busy\<lparr> id_message := ''soon'' \<rparr>)) = None
   \<and> times1000 env0 None = None
   \<and> node.timestampMs (messageNode env0 (busy\<lparr> id_message := ''soon'' \<rparr>) ''general'')
       = Some None
   \<and> node.timestampMs (reactionNode env0 (busy\<lparr> id_message := ''soon'' \<rparr>)
         (Obj (thumbsup ''B''))) = Some None
   \<and> edge.timestampMs (authorsMessageEdge env0 (busy\<lparr> id_message := ''soon'' \<rparr>) alice)
       = Some None
   \<and> edge.timestampMs (addsReactionEdge env0 (Str ''thumbsup'') bob
         (busy\<lparr> id_message := ''soon'' \<rparr>)) = Some None
   \<and> edge.timestampMs (reactsToEdge env0 (Str ''thumbsup'') (busy\<lparr> id_message := ''soon'' \<rparr>))
       = Some None
   \<and> edge.timestampMs (mentionsEdge env0 (busy\<lparr> id_message := ''soon'' \<rparr>) alice) = Some None
   \<and> edge.timestampMs (repliesEdge env0 (busy\<lparr> id_message := ''soon'' \<rparr>) m2) = Some None
   \<and> edge.timestampMs (repliesEdge env0 starter m2) = Some (Some 1000)
   \<and> node.timestampMs (messageNode env0 m2 ''general'') = Some (Some 2000)"
  (is "?h1 \<and> ?h2 \<and> ?rest")
proof -
  have h1: ?h1 by (simp add: env0_def)
  have h2: ?h2 by (simp add: env0_def)
  have v: "times1000 env0 (parseFloat env0 (id_message starter)) = Some 1000"
    "times1000 env0 (parseFloat env0 (id_message m2)) = Some 2000"
    by (simp_all add: env0_def starter_def m1_def m2_def)
  show ?thesis
    using C7_message_timestamps [where X = env0 and m = "busy\<lparr> id_message := ''soon'' \<rparr>"
        and nan = None and cn = "''general''" and r = "Obj (thumbsup ''B'')" and u = alice
        and reply = m2 and rp = "workspace [] []" and weights = "()"
        and memberMap = "Map.empty" and ch = general]
      C7_message_timestamps [where X = env0 and m = "busy\<lparr> id_message := ''soon'' \<rparr>"
        and nan = None and cn = "''general''" and r = "Str ''thumbsup''" and u = bob
        and reply = m2 and rp = "workspace [] []" and weights = "()"
        and memberMap = "Map.empty" and ch = general]
      C7_message_timestamps [where X = env0 and m = starter
        and nan = None and cn = "''general''" and r = "Str ''thumbsup''" and u = bob
        and reply = m2 and rp = "workspace [] []" and weights = "()"
        and memberMap = "Map.empty" and ch = general]
      C7_message_timestamps [where X = env0 and m = m2
        and nan = None and cn = "''general''" and r = "Str ''thumbsup''" and u = bob
        and reply = m2 and rp = "workspace [] []" and weights = "()"
        and memberMap = "Map.empty" and ch = general]
      h1 h2 v
    by simp
qed

text \<open>
  Claim C8: the description of a Message node is \<^verbatim>\<open>#\<close>, the channel name,
  \<^verbatim>\<open> message ["\<close>, the escaped first \<^verbatim>\<open>MESSAGE_LENGTH\<close> = 30 characters of the body, and
  \<^verbatim>\<open>..."]\<close>. The body is cut first, to at most 30 characters, then escaped, and the
  ellipsis follows.
\<close>

theorem C8_message_description:
  \<open>description (messageNode X m channelName) =
     ''#'' @ channelName @ '' message ["'' @ escape X (take MESSAGE_LENGTH (text_message m))
       @ ''..."]''
   \<and> MESSAGE_LENGTH = 30
   \<and> take MESSAGE_LENGTH (text_message m) = take 30 (text_message m)
   \<and> length (take MESSAGE_LENGTH (text_message m)) = min 30 (length (text_message m))\<close>
  by (simp add: messageNode_def MESSAGE_LENGTH_def Let_def min.commute)

text \<open>
  Claim C9 against the code. \<^verbatim>\<open>reactionAddress\<close> puts the channel id, the reaction, the
  author id and the message id behind the namespace, in this order. But \<^verbatim>\<open>createGraph\<close>
  calls \<^verbatim>\<open>reactionNode(message, reaction)\<close> with the row of the reaction, where the two
  edges and the weight are built from \<^verbatim>\<open>reaction.reaction\<close>. For the workspace with one
  message and one reaction by the known member \<^verbatim>\<open>B\<close>: the address of the Reaction node has
  the row in the place of the reaction name; the address with the name is the address
  of no node, though it is the source of the ReactsTo edge and the destination of the
  AddsReaction edge; the weight, the resolver's value for the name, the reactor, the
  author and the channel, is stored under the node's address.
\<close>

theorem C9_reaction_node_at_failing_input:
  "nodes (createGraph env0 [] (workspace [m1\<lparr> hasReactions := True \<rparr>] [thumbsup ''B'']) ())
     = [reactionNode env0 (m1\<lparr> hasReactions := True \<rparr>) (Obj (thumbsup ''B'')),
        memberNode env0 bob,
        memberNode env0 alice,
        messageNode env0 (m1\<lparr> hasReactions := True \<rparr>) ''general'']
   \<and> node.address (reactionNode env0 (m1\<lparr> hasReactions := True \<rparr>) (Obj (thumbsup ''B''))
         :: nat option node)
     = (ReactionNS, [Str ''C1'', Obj (thumbsup ''B''), Str ''A'', Str ''1''])
   \<and> reactionAddress (Str ''thumbsup'') (m1\<lparr> hasReactions := True \<rparr>)
     = (ReactionNS, [Str ''C1'', Str ''thumbsup'', Str ''A'', Str ''1''])
   \<and> reactionAddress (Str ''thumbsup'') (m1\<lparr> hasReactions := True \<rparr>)
     \<notin> node.address ` set (nodes (createGraph env0 []
           (workspace [m1\<lparr> hasReactions := True \<rparr>] [thumbsup ''B'']) ()))
   \<and> map src (edges (createGraph env0 []
           (workspace [m1\<lparr> hasReactions := True \<rparr>] [thumbsup ''B'']) ()))
     = [reactionAddress (Str ''thumbsup'') (m1\<lparr> hasReactions := True \<rparr>),
        memberAddress bob, memberAddress alice]
   \<and> map dst (edges (createGraph env0 []
           (workspace [m1\<lparr> hasReactions := True \<rparr>] [thumbsup ''B'']) ()))
     = [messageAddress (m1\<lparr> hasReactions := True \<rparr>),
        reactionAddress (Str ''thumbsup'') (m1\<lparr> hasReactions := True \<rparr>),
        messageAddress (m1\<lparr> hasReactions := True \<rparr>)]
   \<and> nodeWeights (createGraph env0 []
           (workspace [m1\<lparr> hasReactions := True \<rparr>] [thumbsup ''B'']) ())
         (ReactionNS, [Str ''C1'', Obj (thumbsup ''B''), Str ''A'', Str ''1''])
     = Some [''thumbsup'', ''B'', ''A'', ''C1'']
   \<and> nodeWeights (createGraph env0 []
           (workspace [m1\<lparr> hasReactions := True \<rparr>] [thumbsup ''B'']) ())
         (reactionAddress (Str ''thumbsup'') (m1\<lparr> hasReactions := True \<rparr>))
     = None"
  by (simp add: workspace_def env0_def alice_def bob_def general_def m1_def m2_def thumbsup_def
      builder_defs record_defs)

text \<open>
  Claim C10: a Member node has no timestamp. Every node of the output is either a Member
  node, without a timestamp, or a Message or Reaction node, with one.
\<close>

theorem C10_member_nodes_untimed:
  "node.timestampMs (memberNode X u) = None
   \<and> fst (node.address (memberNode X u)) = MemberNS
   \<and> (\<forall>n \<in> set (nodes (createGraph X token rp weights)).
         (fst (node.address n) = MemberNS \<and> node.timestampMs n = None)
         \<or> ((fst (node.address n) = MessageNS \<or> fst (node.address n) = ReactionNS)
             \<and> node.timestampMs n \<noteq> None))"
proof -
  have "(fst (node.address n) = MemberNS \<and> node.timestampMs n = None)
         \<or> ((fst (node.address n) = MessageNS \<or> fst (node.address n) = ReactionNS)
             \<and> node.timestampMs n \<noteq> None)"
    if "n \<in> set (nodes (createGraph X token rp weights))" for n
  proof -
    from that obtain ch m where
      "n \<in> set (nodes (processMessage X rp weights (memberMap_of (members rp)) ch m emptyGraph))"
      unfolding createGraph_node_iff by blast
    from emitted_node_timestamp [OF this] show ?thesis by auto
  qed
  then show ?thesis by (simp add: timestamp_simps)
qed

theorem C10_member_nodes_untimed_witness:
  "memberNode env0 bob
     \<in> set (nodes (createGraph env0 [] (workspace [busy] [thumbsup ''B'', thumbsup ''Z'']) ()))
   \<and> fst (node.address (memberNode env0 bob :: nat option node)) = MemberNS
   \<and> node.timestampMs (memberNode env0 bob) = None
   \<and> messageNode env0 busy ''general''
     \<in> set (nodes (createGraph env0 [] (workspace [busy] [thumbsup ''B'', thumbsup ''Z'']) ()))
   \<and> fst (node.address (messageNode env0 busy ''general'' :: nat option node)) = MessageNS
   \<and> node.timestampMs (messageNode env0 busy ''general'') \<noteq> None"
  (is "?h1 \<and> ?c1 \<and> ?c2 \<and> ?h2 \<and> ?c3 \<and> ?c4")
proof -
  have h1: ?h1 by (simp add: workspace_def env0_def alice_def bob_def general_def m1_def m2_def busy_def
      thumbsup_def builder_defs)
  have h2: ?h2 by (simp add: workspace_def env0_def alice_def bob_def general_def m1_def m2_def busy_def
      thumbsup_def builder_defs)
  from C10_member_nodes_untimed [where X = env0 and u = bob and token = "[]"
      and rp = "workspace [busy] [thumbsup ''B'', thumbsup ''Z'']" and weights = "()"] h1 h2
  show ?thesis by auto
qed

section \<open>Initialization of the mirror store\<close>

lemma fold_case_names [simp]:
  "fold_case ''meta'' = ''meta''"
  "fold_case ''zero'' = ''zero''"
  "fold_case ''config'' = ''config''"
  "fold_case ''channels'' = ''channels''"
  "fold_case ''members'' = ''members''"
  "fold_case ''messages'' = ''messages''"
  "fold_case ''message_reactions'' = ''message_reactions''"
  "fold_case ''message_mentions'' = ''message_mentions''"
  by (simp_all add: fold_case_def lower_def)

lemma select_config_ignores_transaction [simp]:
  "select_config (db\<lparr> inTransaction := b, snapshot := s \<rparr>) = select_config db"
  by (simp add: select_config_def)

lemma select_config_has_meta:
  "select_config db = Inr c \<Longrightarrow> \<exists>t. find_table (tables db) ''meta'' = Some t"
  by (auto simp add: select_config_def split: option.splits)

lemma initialize_same_version:
  assumes "select_config db = Inr (Some (Text config))"
  shows "initialize token db = (Inr (), db)"
proof -
  from select_config_has_meta [OF assms] obtain t
    where "find_table (tables db) ''meta'' = Some t" ..
  then show ?thesis using assms by (simp add: initialize_def)
qed

lemma initialize_other_version:
  assumes "select_config db = Inr (Some v)" and "v \<noteq> Text config"
  shows "initialize token db =
    (Inl (Error ''Database already populated with incompatible server or version''), db)"
proof -
  from select_config_has_meta [OF assms(1)] obtain t
    where "find_table (tables db) ''meta'' = Some t" ..
  then show ?thesis using assms by (simp add: initialize_def)
qed

lemma run_keeps_transaction:
  assumes "s \<noteq> BEGIN" "s \<noteq> COMMIT" "s \<noteq> ROLLBACK"
  shows "inTransaction (snd (run s db)) = inTransaction db
    \<and> snapshot (snd (run s db)) = snapshot db"
  using assms by (cases s) (auto simp add: Let_def split: option.splits)

lemma run_all_keeps_transaction:
  assumes "\<And>s. s \<in> set ss \<Longrightarrow> s \<noteq> BEGIN \<and> s \<noteq> COMMIT \<and> s \<noteq> ROLLBACK"
  shows "inTransaction (snd (run_all ss db)) = inTransaction db
    \<and> snapshot (snd (run_all ss db)) = snapshot db"
  using assms
proof (induction ss arbitrary: db)
  case Nil
  show ?case by simp
next
  case (Cons s ss)
  have s: "s \<noteq> BEGIN" "s \<noteq> COMMIT" "s \<noteq> ROLLBACK" using Cons.prems [of s] by simp_all
  have keep: "inTransaction (snd (run s db)) = inTransaction db
    \<and> snapshot (snd (run s db)) = snapshot db"
    by (rule run_keeps_transaction [OF s])
  show ?case
  proof (cases "run s db")
    case (Pair r db')
    show ?thesis
    proof (cases r)
      case (Inl e)
      with Pair keep show ?thesis by simp
    next
      case (Inr u)
      have "inTransaction (snd (run_all ss db')) = inTransaction db'
        \<and> snapshot (snd (run_all ss db')) = snapshot db'"
        using Cons.IH [of db'] Cons.prems by simp
      with Pair Inr keep show ?thesis by simp
    qed
  qed
qed

lemma initialize_keeps_transaction:
  "inTransaction (snd (initialize token db)) = inTransaction db
   \<and> snapshot (snd (initialize token db)) = snapshot db"
proof -
  let ?c = "CREATE_TABLE True ''meta'' [''zero'', ''config'']"
  obtain r1 db1 where 1: "run ?c db = (r1, db1)" by (cases "run ?c db")
  have k1: "inTransaction db1 = inTransaction db \<and> snapshot db1 = snapshot db"
    using run_keeps_transaction [of ?c db] 1 by simp
  obtain r2 db2 where 2: "run (INSERT_INTO_meta config) db1 = (r2, db2)"
    by (cases "run (INSERT_INTO_meta config) db1")
  have k2: "inTransaction db2 = inTransaction db1 \<and> snapshot db2 = snapshot db1"
    using run_keeps_transaction [of "INSERT_INTO_meta config" db1] 2 by simp
  have k3: "inTransaction (snd (run_all content_tables db2)) = inTransaction db2
    \<and> snapshot (snd (run_all content_tables db2)) = snapshot db2"
    by (rule run_all_keeps_transaction) (auto simp add: content_tables_def)
  show ?thesis
    using 1 2 k1 k2 k3
    by (auto simp add: initialize_def split: sum.splits option.splits)
qed

lemma transaction_open:
  "inTransaction db \<Longrightarrow> transaction queries db = (Inl (Error ''already in transaction''), db)"
  by (simp add: transaction_def)

lemma transaction_commit:
  assumes "\<not> inTransaction db"
    and "queries (db\<lparr> inTransaction := True, snapshot := tables db \<rparr>) = (Inr (), db')"
    and "inTransaction db'"
  shows "transaction queries db = (Inr (), db'\<lparr> inTransaction := False \<rparr>)"
  using assms by (simp add: transaction_def Let_def)

lemma transaction_rollback:
  assumes "\<not> inTransaction db"
    and "queries (db\<lparr> inTransaction := True, snapshot := tables db \<rparr>) = (Inl e, db')"
    and "inTransaction db'"
  shows "transaction queries db =
    (Inl e, db'\<lparr> tables := snapshot db', inTransaction := False \<rparr>)"
  using assms by (simp add: transaction_def Let_def)

lemma failed_construction_restores:
  assumes closed: "\<not> inTransaction db"
    and failed: "fst (transaction (initialize token) db) = Inl e"
  shows "tables (snd (transaction (initialize token) db)) = tables db
    \<and> \<not> inTransaction (snd (transaction (initialize token) db))"
proof -
  let ?db1 = "db\<lparr> inTransaction := True, snapshot := tables db \<rparr>"
  obtain r db' where body: "initialize token ?db1 = (r, db')"
    by (cases "initialize token ?db1")
  have keep: "inTransaction db' \<and> snapshot db' = tables db"
    using initialize_keeps_transaction [of token ?db1] body by simp
  show ?thesis
  proof (cases r)
    case (Inl e')
    with closed body keep show ?thesis
      using transaction_rollback [of db "initialize token" e' db'] by simp
  next
    case (Inr u)
    with closed body keep have "transaction (initialize token) db
        = (Inr (), db'\<lparr> inTransaction := False \<rparr>)"
      using transaction_commit [of db "initialize token" db'] by simp
    with failed show ?thesis by simp
  qed
qed

lemma initialize_pristine:
  assumes "tables db = []"
  shows "initialize token db = (Inr (), db\<lparr> tables := fresh_tables \<rparr>)"
  using assms
  by (simp add: initialize_def select_config_def content_tables_def column_def Let_def
      fresh_tables_def find_table_def has_column_def)

lemma select_config_fresh:
  "tables db = fresh_tables \<Longrightarrow> select_config db = Inr (Some (Text config))"
  by (simp add: select_config_def column_def fresh_tables_def find_table_def has_column_def)

lemma select_config_hand_made:
  "select_config hand_made = Inr (Some (Text config))"
  by (simp add: hand_made_def select_config_def column_def find_table_def has_column_def
      fold_case_def lower_def)

text \<open>
  Claim C3. The constructor is given a handle with no transaction open (a handle with
  one open is the programmer error of claim C4, and is refused before the store is
  read). If the first row of \<^verbatim>\<open>meta\<close> holds the current configuration, the constructor
  succeeds and leaves every table as it was (the only field of the model that changes is
  the journal of the finished transaction). If it holds anything else, the constructor
  throws the incompatibility error and the tables are as before. On a store without
  tables it succeeds and leaves \<^verbatim>\<open>meta\<close> with the row \<^verbatim>\<open>(0, config)\<close> and the five content
  tables, empty; constructing once more on that store succeeds and changes no table.
\<close>

theorem C3_version_guard:
  "(\<not> inTransaction db \<and> select_config db = Inr (Some (Text config)) \<longrightarrow>
      SqliteMirrorRepository (Handle db) token
        = (Inr (), Handle (db\<lparr> snapshot := tables db \<rparr>)))
   \<and> (\<not> inTransaction db' \<and> select_config db' = Inr (Some v) \<and> v \<noteq> Text config \<longrightarrow>
      SqliteMirrorRepository (Handle db') token
        = (Inl (Error ''Database already populated with incompatible server or version''),
           Handle (db'\<lparr> snapshot := tables db' \<rparr>)))
   \<and> (\<not> inTransaction blank \<and> tables blank = [] \<longrightarrow>
      SqliteMirrorRepository (Handle blank) token
        = (Inr (), Handle (blank\<lparr> tables := fresh_tables, snapshot := [] \<rparr>))
      \<and> SqliteMirrorRepository (Handle (blank\<lparr> tables := fresh_tables, snapshot := [] \<rparr>)) token
        = (Inr (), Handle (blank\<lparr> tables := fresh_tables, snapshot := fresh_tables \<rparr>)))"
  (is "?same \<and> ?other \<and> ?fresh")
proof -
  have same: "SqliteMirrorRepository (Handle d) token
        = (Inr (), Handle (d\<lparr> snapshot := tables d \<rparr>))"
    if closed: "\<not> inTransaction d" and c: "select_config d = Inr (Some (Text config))" for d
  proof -
    let ?dbb = "d\<lparr> inTransaction := True, snapshot := tables d \<rparr>"
    have "initialize token ?dbb = (Inr (), ?dbb)"
      by (rule initialize_same_version) (simp add: c)
    then have "transaction (initialize token) d = (Inr (), ?dbb\<lparr> inTransaction := False \<rparr>)"
      using closed by (intro transaction_commit) simp_all
    moreover have "?dbb\<lparr> inTransaction := False \<rparr> = d\<lparr> snapshot := tables d \<rparr>"
      using closed by simp
    ultimately show ?thesis by simp
  qed
  have other: ?other
  proof (intro impI, elim conjE)
    assume closed: "\<not> inTransaction db'" and c: "select_config db' = Inr (Some v)"
      and v: "v \<noteq> Text config"
    let ?dbb = "db'\<lparr> inTransaction := True, snapshot := tables db' \<rparr>"
    let ?e = "Error ''Database already populated with incompatible server or version''"
    have "initialize token ?dbb = (Inl ?e, ?dbb)"
      by (rule initialize_other_version [OF _ v]) (simp add: c)
    then have "transaction (initialize token) db'
        = (Inl ?e, ?dbb\<lparr> tables := snapshot ?dbb, inTransaction := False \<rparr>)"
      using closed by (intro transaction_rollback) simp_all
    moreover have "?dbb\<lparr> tables := snapshot ?dbb, inTransaction := False \<rparr>
        = db'\<lparr> snapshot := tables db' \<rparr>"
      using closed by simp
    ultimately show "SqliteMirrorRepository (Handle db') token
        = (Inl ?e, Handle (db'\<lparr> snapshot := tables db' \<rparr>))"
      by simp
  qed
  have fresh: ?fresh
  proof (intro impI, elim conjE)
    assume closed: "\<not> inTransaction blank" and empty: "tables blank = []"
    let ?dbb = "blank\<lparr> inTransaction := True, snapshot := tables blank \<rparr>"
    let ?dbf = "blank\<lparr> tables := fresh_tables, snapshot := [] \<rparr>"
    have "initialize token ?dbb = (Inr (), ?dbb\<lparr> tables := fresh_tables \<rparr>)"
      using initialize_pristine [of ?dbb token] empty by simp
    then have "transaction (initialize token) blank
        = (Inr (), ?dbb\<lparr> tables := fresh_tables \<rparr>\<lparr> inTransaction := False \<rparr>)"
      using closed by (intro transaction_commit) simp_all
    moreover have "?dbb\<lparr> tables := fresh_tables \<rparr>\<lparr> inTransaction := False \<rparr> = ?dbf"
      using closed empty by simp
    ultimately have first: "SqliteMirrorRepository (Handle blank) token = (Inr (), Handle ?dbf)"
      by simp
    have "SqliteMirrorRepository (Handle ?dbf) token
        = (Inr (), Handle (?dbf\<lparr> snapshot := tables ?dbf \<rparr>))"
      using closed by (intro same select_config_fresh) simp_all
    then have again: "SqliteMirrorRepository (Handle ?dbf) token
        = (Inr (), Handle (blank\<lparr> tables := fresh_tables, snapshot := fresh_tables \<rparr>))"
      by simp
    from first again show "SqliteMirrorRepository (Handle blank) token = (Inr (), Handle ?dbf)
      \<and> SqliteMirrorRepository (Handle ?dbf) token
        = (Inr (), Handle (blank\<lparr> tables := fresh_tables, snapshot := fresh_tables \<rparr>))"
      by simp
  qed
  from same [of db] other fresh show ?thesis by blast
qed

theorem C3_version_guard_witness:
  \<open>\<not> inTransaction (stamped config)
   \<and> select_config (stamped config) = Inr (Some (Text config))
   \<and> SqliteMirrorRepository (Handle (stamped config)) ''token''
       = (Inr (), Handle ((stamped config)\<lparr> snapshot := tables (stamped config) \<rparr>))
   \<and> \<not> inTransaction (stamped ''{"version":"slack_mirror_v1"}'')
   \<and> select_config (stamped ''{"version":"slack_mirror_v1"}'')
       = Inr (Some (Text ''{"version":"slack_mirror_v1"}''))
   \<and> Text ''{"version":"slack_mirror_v1"}'' \<noteq> Text config
   \<and> SqliteMirrorRepository (Handle (stamped ''{"version":"slack_mirror_v1"}'')) ''token''
       = (Inl (Error ''Database already populated with incompatible server or version''),
          Handle ((stamped ''{"version":"slack_mirror_v1"}'')
            \<lparr> snapshot := tables (stamped ''{"version":"slack_mirror_v1"}'') \<rparr>))
   \<and> \<not> inTransaction pristine \<and> tables pristine = []
   \<and> SqliteMirrorRepository (Handle pristine) ''token''
       = (Inr (), Handle (pristine\<lparr> tables := fresh_tables, snapshot := [] \<rparr>))
   \<and> SqliteMirrorRepository (Handle (pristine\<lparr> tables := fresh_tables, snapshot := [] \<rparr>))
         ''token''
       = (Inr (), Handle (pristine\<lparr> tables := fresh_tables, snapshot := fresh_tables \<rparr>))
   \<and> config = ''{"version":"slack_mirror_v0"}''\<close>
  (is "?a1 \<and> ?a2 \<and> ?a3 \<and> ?b1 \<and> ?b2 \<and> ?b3 \<and> ?b4 \<and> ?c1 \<and> ?c2 \<and> ?c3 \<and> ?c4 \<and> ?c5")
proof -
  have a1: ?a1 by (simp add: stamped_def)
  have a2: ?a2 by (simp add: stamped_def select_config_def column_def find_table_def has_column_def)
  have b1: ?b1 by (simp add: stamped_def)
  have b2: ?b2 by (simp add: stamped_def select_config_def column_def find_table_def has_column_def)
  have b3: ?b3 by (simp add: config_def VERSION_def)
  have c1: ?c1 by (simp add: pristine_def)
  have c2: ?c2 by (simp add: pristine_def)
  have c5: ?c5 by (simp add: config_def VERSION_def)
  from C3_version_guard [where db = "stamped config"
      and db' = \<open>stamped ''{"version":"slack_mirror_v1"}''\<close>
      and v = \<open>Text ''{"version":"slack_mirror_v1"}''\<close> and blank = pristine
      and token = "''token''"]
    a1 a2 b1 b2 b3 c1 c2 c5
  show ?thesis by blast
qed

lemma transaction_returns:
  assumes "\<not> inTransaction db"
    and "queries (snd (run BEGIN db)) = (Inr (), db')"
  shows "transaction queries db =
    (Inr (), if inTransaction db' then snd (run COMMIT db') else db')"
  using assms by (simp add: transaction_def Let_def)

lemma transaction_throws:
  assumes "\<not> inTransaction db"
    and "queries (snd (run BEGIN db)) = (Inl e, db')"
  shows "transaction queries db =
    (Inl e, if inTransaction db' then snd (run ROLLBACK db') else db')"
  using assms by (simp add: transaction_def Let_def)

text \<open>
  Claim C4, as the spec states it, fails for a body that ends the transaction before it
  throws: the \<^verbatim>\<open>finally\<close> block runs \<^verbatim>\<open>ROLLBACK\<close> only \<^verbatim>\<open>if (this._db.inTransaction)\<close>, so
  nothing is rolled back and the table the body created is there afterwards.
\<close>

theorem C4_committed_body_counterexample:
  "\<not> inTransaction pristine
   \<and> tables pristine = []
   \<and> commit_then_throw (snd (run BEGIN pristine))
       = (Inl (Error ''late''),
          pristine\<lparr> tables := [(''scratch'', \<lparr> columns = [''x''], rows = [] \<rparr>)] \<rparr>)
   \<and> transaction commit_then_throw pristine
       = (Inl (Error ''late''),
          pristine\<lparr> tables := [(''scratch'', \<lparr> columns = [''x''], rows = [] \<rparr>)] \<rparr>)"
  by (simp add: pristine_def commit_then_throw_def transaction_def find_table_def Let_def)

text \<open>
  Claim C4, amended. With a transaction open the guard throws and touches nothing.
  Otherwise it runs \<^verbatim>\<open>BEGIN\<close> and the body. When the body returns, it runs \<^verbatim>\<open>COMMIT\<close> if
  the transaction is still open, and the body's tables stay. When the body throws, it
  runs \<^verbatim>\<open>ROLLBACK\<close> if the transaction is still open, which puts back the tables recorded
  at \<^verbatim>\<open>BEGIN\<close>; if the body has ended the transaction itself, nothing is rolled back and
  the store stays as the body left it. Either way the body's error is thrown on, and no
  way out leaves a transaction open. The initialization never ends the transaction:
  whenever the construction fails, the tables are exactly those from before, so no table
  the initialization created is left.
\<close>

theorem C4_transaction_guard:
  "(inTransaction db \<longrightarrow>
      transaction queries db = (Inl (Error ''already in transaction''), db))
   \<and> (\<not> inTransaction dbc \<and> qc (snd (run BEGIN dbc)) = (Inr (), dbc') \<longrightarrow>
      transaction qc dbc = (Inr (), if inTransaction dbc' then snd (run COMMIT dbc') else dbc')
      \<and> tables (snd (transaction qc dbc)) = tables dbc'
      \<and> \<not> inTransaction (snd (transaction qc dbc)))
   \<and> (\<not> inTransaction dbr \<and> qr (snd (run BEGIN dbr)) = (Inl e, dbr') \<longrightarrow>
      transaction qr dbr = (Inl e, if inTransaction dbr' then snd (run ROLLBACK dbr') else dbr')
      \<and> (inTransaction dbr' \<longrightarrow> tables (snd (transaction qr dbr)) = snapshot dbr')
      \<and> \<not> inTransaction (snd (transaction qr dbr)))
   \<and> (\<not> inTransaction dbi \<and> fst (transaction (initialize token) dbi) = Inl e' \<longrightarrow>
      tables (snd (transaction (initialize token) dbi)) = tables dbi
      \<and> \<not> inTransaction (snd (transaction (initialize token) dbi)))"
  (is "?open \<and> ?commit \<and> ?rollback \<and> ?atomic")
proof -
  have 1: ?open by (simp add: transaction_open)
  have 2: ?commit
  proof (intro impI, elim conjE)
    assume a: "\<not> inTransaction dbc" "qc (snd (run BEGIN dbc)) = (Inr (), dbc')"
    show "transaction qc dbc
        = (Inr (), if inTransaction dbc' then snd (run COMMIT dbc') else dbc')
      \<and> tables (snd (transaction qc dbc)) = tables dbc'
      \<and> \<not> inTransaction (snd (transaction qc dbc))"
      using transaction_returns [where db = dbc and queries = qc and db' = dbc'] a by simp
  qed
  have 3: ?rollback
  proof (intro impI, elim conjE)
    assume a: "\<not> inTransaction dbr" "qr (snd (run BEGIN dbr)) = (Inl e, dbr')"
    show "transaction qr dbr
        = (Inl e, if inTransaction dbr' then snd (run ROLLBACK dbr') else dbr')
      \<and> (inTransaction dbr' \<longrightarrow> tables (snd (transaction qr dbr)) = snapshot dbr')
      \<and> \<not> inTransaction (snd (transaction qr dbr))"
      using transaction_throws [where db = dbr and queries = qr and db' = dbr' and e = e] a
      by simp
  qed
  have 4: ?atomic using failed_construction_restores [of dbi token e'] by blast
  from 1 2 3 4 show ?thesis by blast
qed

theorem C4_transaction_guard_witness:
  "inTransaction (pristine\<lparr> inTransaction := True \<rparr>)
   \<and> transaction (initialize ''token'') (pristine\<lparr> inTransaction := True \<rparr>)
       = (Inl (Error ''already in transaction''), pristine\<lparr> inTransaction := True \<rparr>)
   \<and> \<not> inTransaction pristine
   \<and> initialize ''token'' (snd (run BEGIN pristine))
       = (Inr (), pristine\<lparr> tables := fresh_tables, inTransaction := True \<rparr>)
   \<and> transaction (initialize ''token'') pristine
       = (Inr (), pristine\<lparr> tables := fresh_tables \<rparr>)
   \<and> \<not> inTransaction half_made
   \<and> map fst (tables (snd (initialize ''token'' (snd (run BEGIN half_made)))))
       = [''members'', ''meta'', ''channels'']
   \<and> inTransaction (snd (initialize ''token'' (snd (run BEGIN half_made))))
   \<and> fst (initialize ''token'' (snd (run BEGIN half_made)))
       = Inl (SqliteError ''table members already exists'')
   \<and> fst (transaction (initialize ''token'') half_made)
       = Inl (SqliteError ''table members already exists'')
   \<and> tables (snd (transaction (initialize ''token'') half_made)) = tables half_made
   \<and> map fst (tables (snd (transaction (initialize ''token'') half_made))) = [''members'']
   \<and> \<not> inTransaction (snd (transaction (initialize ''token'') half_made))"
  (is "?a1 \<and> ?a2 \<and> ?b1 \<and> ?b2 \<and> ?b3 \<and> ?c1 \<and> ?c2 \<and> ?c3 \<and> ?c4 \<and> ?c5 \<and> ?c6 \<and> ?c7 \<and> ?c8")
proof -
  have a1: ?a1 by simp
  have b1: ?b1 by (simp add: pristine_def)
  have b2: ?b2
    using initialize_pristine [of "snd (run BEGIN pristine)" "''token''"]
    by (simp add: pristine_def)
  have c1: ?c1 by (simp add: half_made_def)
  have body: "initialize ''token'' (snd (run BEGIN half_made)) =
      (Inl (SqliteError ''table members already exists''),
       snd (initialize ''token'' (snd (run BEGIN half_made))))"
    by (simp add: initialize_def select_config_def content_tables_def config_def VERSION_def
        column_def half_made_def Let_def find_table_def has_column_def)
  have c2: ?c2
    by (simp add: initialize_def select_config_def content_tables_def config_def VERSION_def
        column_def half_made_def Let_def find_table_def has_column_def)
  have c3: ?c3
    by (simp add: initialize_def select_config_def content_tables_def config_def VERSION_def
        column_def half_made_def Let_def find_table_def has_column_def)
  have c4: ?c4
    by (simp add: initialize_def select_config_def content_tables_def config_def VERSION_def
        column_def half_made_def Let_def find_table_def has_column_def)
  have snap: "snapshot (snd (initialize ''token'' (snd (run BEGIN half_made))))
      = tables half_made"
    by (simp add: initialize_def select_config_def content_tables_def config_def VERSION_def
        column_def half_made_def Let_def find_table_def has_column_def)
  have names: "map fst (tables half_made) = [''members'']" by (simp add: half_made_def)
  from C4_transaction_guard [where db = "pristine\<lparr> inTransaction := True \<rparr>"
      and queries = "initialize ''token''" and dbc = pristine
      and qc = "initialize ''token''"
      and dbc' = "pristine\<lparr> tables := fresh_tables, inTransaction := True \<rparr>"
      and dbr = half_made and qr = "initialize ''token''"
      and e = "SqliteError ''table members already exists''"
      and dbr' = "snd (initialize ''token'' (snd (run BEGIN half_made)))"
      and dbi = half_made and token = "''token''"
      and e' = "SqliteError ''table members already exists''"]
    a1 b1 b2 c1 body c2 c3 c4 snap names
  show ?thesis by (simp add: pristine_def)
qed

end
